theory Spec2Isabelle
  imports Main "HOL-Library.Sublist" "HOL-Library.List_Lexorder"
begin

section \<open>Text, bytes and paths\<close>

text \<open>
  A Python \<open>str\<close> is a list of code points; a \<open>bytes\<close> value is a list of 8-bit
  characters. \<open>lit\<close> turns an ASCII literal of the source into a \<open>str\<close>.
\<close>

type_synonym str = "nat list"
type_synonym bytes = "string"

definition lit :: "string \<Rightarrow> str" where
  "lit s = map of_char s"

text \<open>
  \<open>bytes.decode("utf-8")\<close>, strict: \<open>None\<close> stands for \<open>UnicodeDecodeError\<close>
  (a stray continuation byte, a truncated or overlong sequence, a surrogate, a code point
  above U+10FFFF).
\<close>

definition utf8_cont :: "nat \<Rightarrow> bool" where
  "utf8_cont c = (128 \<le> c \<and> c \<le> 191)"

fun utf8_dec :: "nat list \<Rightarrow> str option" where
  "utf8_dec [] = Some []"
| "utf8_dec (b # bs) =
     (if b < 128 then map_option (Cons b) (utf8_dec bs)
      else if 194 \<le> b \<and> b \<le> 223 then
        (case bs of
           c1 # r \<Rightarrow>
             if utf8_cont c1
             then map_option (Cons ((b - 192) * 64 + (c1 - 128))) (utf8_dec r)
             else None
         | _ \<Rightarrow> None)
      else if 224 \<le> b \<and> b \<le> 239 then
        (case bs of
           c1 # c2 # r \<Rightarrow>
             if utf8_cont c1 \<and> utf8_cont c2
                \<and> (if b = 224 then 160 \<le> c1 else True)
                \<and> (if b = 237 then c1 \<le> 159 else True)
             then map_option
                    (Cons ((b - 224) * 4096 + (c1 - 128) * 64 + (c2 - 128)))
                    (utf8_dec r)
             else None
         | _ \<Rightarrow> None)
      else if 240 \<le> b \<and> b \<le> 244 then
        (case bs of
           c1 # c2 # c3 # r \<Rightarrow>
             if utf8_cont c1 \<and> utf8_cont c2 \<and> utf8_cont c3
                \<and> (if b = 240 then 144 \<le> c1 else True)
                \<and> (if b = 244 then c1 \<le> 143 else True)
             then map_option
                    (Cons ((b - 240) * 262144 + (c1 - 128) * 4096
                           + (c2 - 128) * 64 + (c3 - 128)))
                    (utf8_dec r)
             else None
         | _ \<Rightarrow> None)
      else None)"

definition utf8_decode :: "bytes \<Rightarrow> str option" where
  "utf8_decode bs = utf8_dec (map of_char bs)"

text \<open>
  \<open>str.encode("utf-8")\<close>, strict: \<open>None\<close> stands for \<open>UnicodeEncodeError\<close>
  (a surrogate).
\<close>

definition utf8_enc1 :: "nat \<Rightarrow> nat list option" where
  "utf8_enc1 c =
     (if c < 128 then Some [c]
      else if c < 2048 then Some [192 + c div 64, 128 + c mod 64]
      else if c < 65536 then
        (if 55296 \<le> c \<and> c \<le> 57343 then None
         else Some [224 + c div 4096, 128 + (c div 64) mod 64, 128 + c mod 64])
      else if c < 1114112 then
        Some [240 + c div 262144, 128 + (c div 4096) mod 64,
              128 + (c div 64) mod 64, 128 + c mod 64]
      else None)"

fun utf8_encode :: "str \<Rightarrow> bytes option" where
  "utf8_encode [] = Some []"
| "utf8_encode (c # cs) =
     (case utf8_enc1 c of
        None \<Rightarrow> None
      | Some bs \<Rightarrow> map_option (\<lambda>r. map char_of bs @ r) (utf8_encode cs))"

text \<open>
  Reading a file opened in text mode with the default \<open>newline=None\<close>: the universal
  newlines translation turns \<open>\r\n\<close> and a lone \<open>\r\<close> into \<open>\n\<close>.
\<close>

fun universal_newlines :: "str \<Rightarrow> str" where
  "universal_newlines [] = []"
| "universal_newlines (c # cs) =
     (if c = 13 then
        (case cs of
           d # ds \<Rightarrow> if d = 10 then 10 # universal_newlines ds
                     else 10 # universal_newlines cs
         | [] \<Rightarrow> [10])
      else c # universal_newlines cs)"

text \<open>
  The characters \<open>str.strip()\<close> removes: those for which \<open>str.isspace\<close> holds.
\<close>

definition isspace :: "nat \<Rightarrow> bool" where
  "isspace c =
     ((9 \<le> c \<and> c \<le> 13) \<or> (28 \<le> c \<and> c \<le> 32) \<or> c = 133 \<or> c = 160
      \<or> c = 5760 \<or> (8192 \<le> c \<and> c \<le> 8202) \<or> c = 8232 \<or> c = 8233
      \<or> c = 8239 \<or> c = 8287 \<or> c = 12288)"

definition strip :: "str \<Rightarrow> str" where
  "strip s = rev (dropWhile isspace (rev (dropWhile isspace s)))"

text \<open>\<open>sub in s\<close> on strings.\<close>

fun str_in :: "str \<Rightarrow> str \<Rightarrow> bool" where
  "str_in sub [] = (sub = [])"
| "str_in sub (c # s) = (prefix sub (c # s) \<or> str_in sub s)"

text \<open>\<open>os.path.join\<close> with two arguments and \<open>os.path.splitext\<close> (posixpath).\<close>

definition join :: "str \<Rightarrow> str \<Rightarrow> str" where
  "join a b =
     (if prefix (lit ''/'') b then b
      else if a = [] \<or> suffix (lit ''/'') a then a @ b
      else a @ lit ''/'' @ b)"

text \<open>
  \<open>p.rfind(c)\<close> for a single character: the highest index where it stands, or -1.
  \<open>rfind_from\<close> scans from index \<open>i\<close> with the best index so far.
\<close>

fun rfind_from :: "nat \<Rightarrow> str \<Rightarrow> nat \<Rightarrow> int \<Rightarrow> int" where
  "rfind_from c [] i found = found"
| "rfind_from c (x # xs) i found =
     rfind_from c xs (i + 1) (if x = c then int i else found)"

definition rfind :: "nat \<Rightarrow> str \<Rightarrow> int" where
  "rfind c p = rfind_from c p 0 (- 1)"

text \<open>
  \<open>splitext\<close>: the extension starts at the last dot, when that dot stands after the
  last separator and some character between the two is not a dot (leading dots of the
  file name do not start an extension).
\<close>

definition splitext :: "str \<Rightarrow> str \<times> str" where
  "splitext p =
     (let sepIndex = rfind 47 p;
          dotIndex = rfind 46 p
      in if dotIndex > sepIndex
            \<and> list_ex (\<lambda>c. c \<noteq> 46)
                (take (nat (dotIndex - (sepIndex + 1))) (drop (nat (sepIndex + 1)) p))
         then (take (nat dotIndex) p, drop (nat dotIndex) p)
         else (p, []))"

section \<open>The environment: file system, processes, exceptions\<close>

datatype node = File bytes | Dir "str list"

type_synonym filesystem = "str \<rightharpoonup> node"

text \<open>
  The exceptions that can leave the functions below. \<open>TestingException\<close> carries the
  parts its message is built from.
\<close>

datatype msg =
    CommandFailed str str
  | UnableToExecute str nat str
  | SubmissionLacks str

datatype exn =
    TestingException msg
  | OSError nat str
  | UnicodeDecodeError
  | UnicodeEncodeError

text \<open>
  What \<open>subprocess.run\<close> gives for one child: the launch fails with an \<open>OSError\<close>
  (errno, strerror), or the child runs to its end with a return code and what it wrote
  to the two captured streams.
\<close>

datatype proc = SpawnError nat str | Completed int bytes bytes

text \<open>
  The standard input of a child: not redirected, the bytes of a file or of a pipe, or a
  string that \<open>subprocess\<close> encodes for the child (\<open>input=\<close> with an encoding).
\<close>

datatype stdin = Inherit | Piped bytes | PipedText str

text \<open>
  What is printed on standard output, one item per \<open>print\<close> or \<open>write\<close> of
  \<open>run_tests\<close> and of \<open>main\<close>, with the layout of the text of each item left
  out. What goes to standard error is not recorded.
\<close>

datatype out =
    Banner str "str list" "str list"
  | Status str nat nat nat
  | Blank
  | AllSucceeded
  | SomeFailed
  | FailedHeader str
  | StderrDiff str str
  | StdoutDiff str str
  | ExtensionList "str list"
  | RemovingTemporaryFiles str

text \<open>
  The outside world, as the program sees it: what a child process does (given its
  argument vector, its standard input and the file system), the names \<open>tempfile\<close>
  picks, the working directory, \<open>platform.system()\<close>, and the two preparation steps of
  \<open>main\<close> that unpack and build the submission (\<open>check_archive\<close> and
  \<open>check_build\<close>: each may raise and may change the file system).
\<close>

record env =
  spawn :: "str list \<Rightarrow> stdin \<Rightarrow> filesystem \<Rightarrow> proc \<times> filesystem"
  mkstemp_name :: "str \<Rightarrow> str \<Rightarrow> str \<Rightarrow> filesystem \<Rightarrow> str"
  mkdtemp_name :: "str \<Rightarrow> str \<Rightarrow> filesystem \<Rightarrow> str"
  getcwd :: str
  platform_system :: str
  check_archive :: "str \<Rightarrow> str \<Rightarrow> filesystem \<Rightarrow> exn option \<times> filesystem"
  check_build :: "str \<Rightarrow> str \<Rightarrow> str list \<Rightarrow> filesystem \<Rightarrow> exn option \<times> filesystem"

record world =
  fs :: filesystem
  trace :: "str list list"
  printed :: "out list"

definition isfile :: "world \<Rightarrow> str \<Rightarrow> bool" where
  "isfile w p = (case fs w p of Some (File _) \<Rightarrow> True | _ \<Rightarrow> False)"

definition isdir :: "world \<Rightarrow> str \<Rightarrow> bool" where
  "isdir w p = (case fs w p of Some (Dir _) \<Rightarrow> True | _ \<Rightarrow> False)"

definition listdir :: "world \<Rightarrow> str \<Rightarrow> exn + str list" where
  "listdir w p =
     (case fs w p of
        Some (Dir names) \<Rightarrow> Inr names
      | Some (File _) \<Rightarrow> Inl (OSError 20 (lit ''Not a directory''))
      | None \<Rightarrow> Inl (OSError 2 (lit ''No such file or directory'')))"

text \<open>\<open>open(p)\<close> for reading, giving the bytes of the file.\<close>

definition open_file :: "world \<Rightarrow> str \<Rightarrow> exn + bytes" where
  "open_file w p =
     (case fs w p of
        Some (File b) \<Rightarrow> Inr b
      | Some (Dir _) \<Rightarrow> Inl (OSError 21 (lit ''Is a directory''))
      | None \<Rightarrow> Inl (OSError 2 (lit ''No such file or directory'')))"

definition write_file :: "str \<Rightarrow> bytes \<Rightarrow> world \<Rightarrow> world" where
  "write_file p b w = w\<lparr>fs := (fs w)(p \<mapsto> File b)\<rparr>"

definition os_remove :: "str \<Rightarrow> world \<Rightarrow> world" where
  "os_remove p w = w\<lparr>fs := (fs w)(p := None)\<rparr>"

definition print :: "out \<Rightarrow> world \<Rightarrow> world" where
  "print x w = w\<lparr>printed := printed w @ [x]\<rparr>"

text \<open>
  \<open>subprocess.run\<close>: the child acts on the file system, and the call is recorded in the
  trace of the processes launched.
\<close>

definition subprocess_run :: "env \<Rightarrow> str list \<Rightarrow> stdin \<Rightarrow> world \<Rightarrow> proc \<times> world" where
  "subprocess_run e argv stdi w =
     (case spawn e argv stdi (fs w) of
        (p, fs') \<Rightarrow> (p, w\<lparr>fs := fs', trace := trace w @ [argv]\<rparr>))"

section \<open>The compiler under test\<close>

record data =
  stderr_actual :: str
  stderr_expected :: str
  stdout_expected :: str
  stdout_actual :: str
  stdout_compiler :: str

definition run_compiler ::
  "env \<Rightarrow> str \<Rightarrow> str \<Rightarrow> bool \<Rightarrow> world \<Rightarrow> (exn + bool \<times> data) \<times> world" where
  "run_compiler e exe src_file is_good w =
     (case (case open_file w src_file of
              Inl x \<Rightarrow> (Inl x, w)
            | Inr infile \<Rightarrow>
                (case subprocess_run e [exe] (Piped infile) w of
                   (SpawnError errno strerror, w') \<Rightarrow> (Inl (OSError errno strerror), w')
                 | (Completed returncode out err, w') \<Rightarrow>
                     (case utf8_decode out of
                        None \<Rightarrow> (Inl UnicodeDecodeError, w')
                      | Some stdout \<Rightarrow>
                          (case utf8_decode err of
                             None \<Rightarrow> (Inl UnicodeDecodeError, w')
                           | Some stderr \<Rightarrow>
                               (Inr (returncode, stdout, strip stderr), w'))))) of
        (Inl (OSError errno strerror), w') \<Rightarrow>
          (Inl (TestingException (UnableToExecute exe errno strerror)), w')
      | (Inl x, w') \<Rightarrow> (Inl x, w')
      | (Inr (returncode, stdout, stderr), w') \<Rightarrow>
          (let stderr_expected = (if is_good then lit ''OK'' else lit ''ERROR'');
               check = (if is_good
                        then (\<lambda>s. s = stderr_expected \<and> returncode = 0)
                        else (\<lambda>s. str_in stderr_expected s \<and> returncode \<noteq> 0))
           in (Inr (check stderr,
                    \<lparr>stderr_actual = stderr,
                     stderr_expected = stderr_expected,
                     stdout_expected = [],
                     stdout_actual = [],
                     stdout_compiler = stdout\<rparr>), w')))"

section \<open>Commands, temporary files and the linkers\<close>

fun clean_files :: "str list \<Rightarrow> world \<Rightarrow> world" where
  "clean_files [] w = w"
| "clean_files (name # files) w =
     clean_files files (if isfile w name then os_remove name w else w)"

text \<open>
  \<open>run_command\<close>: \<open>stdo\<close> is the path of the open file the child's standard output
  goes to. With \<open>stdi\<close> given the pipes are in text mode, so what the child wrote to
  them (standard output when it is captured, then standard error) is decoded, and its
  newlines translated, whatever the return code.
\<close>

definition run_command ::
  "env \<Rightarrow> str \<Rightarrow> str list \<Rightarrow> str option \<Rightarrow> str option \<Rightarrow> world \<Rightarrow> (exn + unit) \<times> world" where
  "run_command e cmd args stdi stdo w =
     (case subprocess_run e (cmd # args)
             (case stdi of None \<Rightarrow> Inherit | Some s \<Rightarrow> PipedText s) w of
        (SpawnError errno strerror, w') \<Rightarrow> (Inl (OSError errno strerror), w')
      | (Completed returncode out err, w') \<Rightarrow>
          (let w'' = (case stdo of None \<Rightarrow> w' | Some f \<Rightarrow> write_file f out w')
           in case stdi of
                Some _ \<Rightarrow>
                  (case (case stdo of None \<Rightarrow> utf8_decode out | Some _ \<Rightarrow> Some []) of
                     None \<Rightarrow> (Inl UnicodeDecodeError, w'')
                   | Some _ \<Rightarrow>
                       (case utf8_decode err of
                          None \<Rightarrow> (Inl UnicodeDecodeError, w'')
                        | Some t \<Rightarrow>
                            if returncode \<noteq> 0
                            then (Inl (TestingException
                                         (CommandFailed cmd (universal_newlines t))), w'')
                            else (Inr (), w'')))
              | None \<Rightarrow>
                  if returncode \<noteq> 0
                  then (case utf8_decode err of
                          None \<Rightarrow> (Inl UnicodeDecodeError, w'')
                        | Some t \<Rightarrow> (Inl (TestingException (CommandFailed cmd t)), w''))
                  else (Inr (), w'')))"

text \<open>\<open>tempfile.mkstemp\<close>: the file is created, empty, under the name picked.\<close>

definition mkstemp :: "env \<Rightarrow> str \<Rightarrow> str \<Rightarrow> str \<Rightarrow> world \<Rightarrow> str \<times> world" where
  "mkstemp e pre suf dir w =
     (let tmp = mkstemp_name e pre suf dir (fs w) in (tmp, write_file tmp [] w))"

definition link_llvm :: "env \<Rightarrow> str \<Rightarrow> str \<Rightarrow> world \<Rightarrow> (exn + unit) \<times> world" where
  "link_llvm e path source_str w =
     (let runtime = join (join path (lit ''lib'')) (lit ''runtime.bc'')
      in case mkstemp e (lit ''test_llvm_'') (lit ''.bc'') (getcwd e) w of
           (tmp, w1) \<Rightarrow>
             (case (case run_command e (lit ''llvm-as'') [] (Some source_str) (Some tmp)
                           (write_file tmp [] w1) of
                      (Inl x, w2) \<Rightarrow> (Inl x, w2)
                    | (Inr _, w2) \<Rightarrow>
                        (case run_command e (lit ''llvm-link'')
                                [tmp, runtime, lit ''-o=main.bc''] None None w2 of
                           (Inl x, w3) \<Rightarrow> (Inl x, w3)
                         | (Inr _, w3) \<Rightarrow>
                             run_command e (lit ''clang'') [lit ''main.bc''] None None w3)) of
                (r, w4) \<Rightarrow> (r, clean_files [tmp, lit ''main.bc''] w4)))"

text \<open>
  \<open>link_x86\<close> writes the assembly to its temporary file in text mode; the encoding of
  the locale is taken to be UTF-8 and the newline of the host \<open>\n\<close>.
\<close>

definition link_x86 ::
  "env \<Rightarrow> str \<Rightarrow> str \<Rightarrow> bool \<Rightarrow> bool \<Rightarrow> world \<Rightarrow> (exn + unit) \<times> world" where
  "link_x86 e path source_str is_x64 is_macho w =
     (case mkstemp e (lit ''test_x86_'') (lit ''.s'') (getcwd e) w of
        (tmp_s, w1) \<Rightarrow>
          (case mkstemp e (lit ''test_x86_'') (lit ''.o'') (getcwd e) w1 of
             (tmp_o, w2) \<Rightarrow>
               (let suff = (if is_x64 then lit ''x64'' else lit ''x86'');
                    runtime = join (join path (lit ''lib''))
                                (lit ''runtime'' @ suff @ lit ''.o'');
                    arch = (if is_macho
                            then (if is_x64 then lit ''macho64'' else lit ''macho32'')
                            else (if is_x64 then lit ''elf64'' else lit ''elf32''))
                in case (case utf8_encode source_str of
                           None \<Rightarrow> (Inl UnicodeEncodeError, write_file tmp_s [] w2)
                         | Some b \<Rightarrow>
                             (case run_command e (lit ''nasm'')
                                     [lit ''-f '' @ arch, tmp_s, lit ''-o '' @ tmp_o]
                                     None None (write_file tmp_s b w2) of
                                (Inl x, w3) \<Rightarrow> (Inl x, w3)
                              | (Inr _, w3) \<Rightarrow>
                                  run_command e (lit ''clang'') [tmp_o, runtime]
                                    None None w3)) of
                     (r, w4) \<Rightarrow> (r, clean_files [tmp_s, tmp_o] w4))))"

text \<open>
  The linker handed to \<open>exec_test\<close> is one of three closures of \<open>run_tests\<close>; each
  is given by the function it calls and the values it captures.
\<close>

datatype linker = LinkLLVM str | LinkX86 str bool bool

fun call_linker :: "env \<Rightarrow> linker \<Rightarrow> str \<Rightarrow> world \<Rightarrow> (exn + unit) \<times> world" where
  "call_linker e (LinkLLVM path) s w = link_llvm e path s w"
| "call_linker e (LinkX86 path is_x64 is_macho) s w = link_x86 e path s is_x64 is_macho w"

section \<open>One test\<close>

text \<open>
  Two steps of \<open>exec_test\<close>: the input file is opened when it is a file, and the
  expected output is the text of the output file, read in text mode (decoded, here with
  UTF-8 as the encoding of the locale, then with \<open>\r\n\<close> and \<open>\r\<close> turned into
  \<open>\n\<close>), or the empty string when there is no such file.
\<close>

definition open_input :: "world \<Rightarrow> str \<Rightarrow> bytes option" where
  "open_input w input_file =
     (if isfile w input_file
      then (case open_file w input_file of Inr b \<Rightarrow> Some b | Inl _ \<Rightarrow> None)
      else None)"

definition read_expected :: "world \<Rightarrow> str \<Rightarrow> exn + str" where
  "read_expected w output_file =
     (if isfile w output_file
      then (case open_file w output_file of
              Inl x \<Rightarrow> Inl x
            | Inr b \<Rightarrow>
                (case utf8_decode b of
                   None \<Rightarrow> Inl UnicodeDecodeError
                 | Some t \<Rightarrow> Inr (universal_newlines t)))
      else Inr [])"

text \<open>
  With no input file the standard input of the program is a pipe nothing is written to.
\<close>

definition exec_test ::
  "env \<Rightarrow> str \<Rightarrow> str \<Rightarrow> bool \<Rightarrow> linker option \<Rightarrow> world \<Rightarrow> (exn + bool \<times> data) \<times> world" where
  "exec_test e exe filename is_good linker w =
     (let input_file = filename @ lit ''.input'';
          output_file = filename @ lit ''.output'';
          source_file = filename @ lit ''.jl''
      in case run_compiler e exe source_file is_good w of
           (Inl x, w1) \<Rightarrow> (Inl x, w1)
         | (Inr (compiler_success, d), w1) \<Rightarrow>
             if \<not> compiler_success \<or> \<not> is_good \<or> linker = None
             then (Inr (compiler_success, d), w1)
             else
               (case linker of
                  None \<Rightarrow> (Inr (compiler_success, d), w1)
                | Some l \<Rightarrow>
                    (case call_linker e l (stdout_compiler d) w1 of
                       (Inl x, w2) \<Rightarrow> (Inl x, w2)
                     | (Inr _, w2) \<Rightarrow>
                         (let infile = open_input w2 input_file
                          in case read_expected w2 output_file of
                               Inl x \<Rightarrow> (Inl x, w2)
                             | Inr stdout_exp \<Rightarrow>
                                 (case subprocess_run e [lit ''./a.out'']
                                         (Piped (case infile of
                                                   Some b \<Rightarrow> b
                                                 | None \<Rightarrow> [])) w2 of
                                    (SpawnError errno strerror, w3) \<Rightarrow>
                                      (Inl (TestingException
                                              (UnableToExecute (lit ''./a.out'')
                                                 errno strerror)), w3)
                                  | (Completed returncode out err, w3) \<Rightarrow>
                                      (case utf8_decode out of
                                         None \<Rightarrow> (Inl UnicodeDecodeError, w3)
                                       | Some stdout_act \<Rightarrow>
                                           (Inr (stdout_act = stdout_exp,
                                                 \<lparr>stderr_actual = stderr_actual d,
                                                  stderr_expected = stderr_expected d,
                                                  stdout_expected = stdout_exp,
                                                  stdout_actual = stdout_act,
                                                  stdout_compiler = stdout_compiler d\<rparr>),
                                            w3)))))))"

section \<open>The catalogue of tests\<close>

fun build_list_loop ::
  "world \<Rightarrow> str \<Rightarrow> bool \<Rightarrow> (str \<times> bool) list \<Rightarrow> str list \<Rightarrow> (str \<times> bool) list" where
  "build_list_loop w path is_good tests [] = tests"
| "build_list_loop w path is_good tests (fname # rest) =
     build_list_loop w path is_good
       (if isfile w (join path fname)
        then (case splitext fname of
                (base, ext) \<Rightarrow>
                  if ext = lit ''.jl'' then tests @ [(join path base, is_good)] else tests)
        else tests)
       rest"

definition build_list ::
  "(str \<times> bool) list \<Rightarrow> str \<Rightarrow> bool \<Rightarrow> world \<Rightarrow> exn + (str \<times> bool) list" where
  "build_list tests path is_good w =
     (case listdir w path of
        Inl x \<Rightarrow> Inl x
      | Inr names \<Rightarrow> Inr (build_list_loop w path is_good tests names))"

fun build_exts :: "(str \<times> bool) list \<Rightarrow> str list \<Rightarrow> world \<Rightarrow> exn + (str \<times> bool) list" where
  "build_exts tests [] w = Inr tests"
| "build_exts tests (ext # exts) w =
     (case build_list tests (lit ''testsuite/extensions/'' @ ext) True w of
        Inl x \<Rightarrow> Inl x
      | Inr tests' \<Rightarrow> build_exts tests' exts w)"

section \<open>Running the tests\<close>

text \<open>
  The loop over the test files, the same in the type-checking pass and in each backend
  pass. Its state is the three variables \<open>tests_ok\<close>, \<open>tests_bad\<close> and
  \<open>failures\<close>; \<open>title\<close> and \<open>tests_total\<close> go into the status line.
\<close>

fun test_loop ::
  "env \<Rightarrow> str \<Rightarrow> linker option \<Rightarrow> str \<Rightarrow> nat \<Rightarrow> (str \<times> bool) list
   \<Rightarrow> nat \<times> nat \<times> (str \<times> data) list \<Rightarrow> world
   \<Rightarrow> (exn + nat \<times> nat \<times> (str \<times> data) list) \<times> world" where
  "test_loop e full_name linker title tests_total [] st w = (Inr st, w)"
| "test_loop e full_name linker title tests_total ((filename, is_good) # rest)
       (tests_ok, tests_bad, failures) w =
     (case exec_test e full_name filename is_good linker w of
        (Inl x, w1) \<Rightarrow> (Inl x, w1)
      | (Inr (is_ok, d), w1) \<Rightarrow>
          (if is_ok
           then test_loop e full_name linker title tests_total rest
                  (tests_ok + 1, tests_bad, failures)
                  (print (Status title (tests_ok + 1) tests_bad tests_total) w1)
           else test_loop e full_name linker title tests_total rest
                  (tests_ok, tests_bad + 1, failures @ [(filename, d)])
                  (print (Status title tests_ok (tests_bad + 1) tests_total) w1)))"

text \<open>
  The loop over the backends (\<open>sfx\<close> is the source's \<open>suffix\<close>, \<open>pre\<close> its
  \<open>prefix\<close>): the two counters start again at 0 in each pass.
\<close>

fun backend_loop ::
  "env \<Rightarrow> str \<Rightarrow> str \<Rightarrow> bool \<Rightarrow> nat \<Rightarrow> (str \<times> bool) list \<Rightarrow> str list
   \<Rightarrow> nat \<times> nat \<times> (str \<times> data) list \<Rightarrow> world
   \<Rightarrow> (exn + nat \<times> nat \<times> (str \<times> data) list) \<times> world" where
  "backend_loop e path pre link_macho tests_total test_files [] st w = (Inr st, w)"
| "backend_loop e path pre link_macho tests_total test_files (sfx # rest)
       (tests_ok, tests_bad, failures) w =
     (let linker = (if sfx = lit ''llvm'' then LinkLLVM path
                    else if sfx = lit ''x86'' then LinkX86 path False link_macho
                    else LinkX86 path True link_macho);
          exec_name = pre @ (if sfx = lit ''llvm'' then [] else lit ''_'' @ sfx);
          full_name = join path exec_name
      in case test_loop e full_name (Some linker) sfx tests_total test_files
                (0, 0, failures) w of
           (Inl x, w1) \<Rightarrow> (Inl x, w1)
         | (Inr st, w1) \<Rightarrow>
             backend_loop e path pre link_macho tests_total test_files rest st
               (print Blank w1))"

fun show_failures :: "str list \<Rightarrow> (str \<times> data) list \<Rightarrow> world \<Rightarrow> world" where
  "show_failures backends [] w = w"
| "show_failures backends ((name, d) # rest) w =
     (let w1 = print (FailedHeader name) w;
          w2 = (if stderr_expected d \<noteq> stderr_actual d
                then print (StderrDiff (stderr_expected d) (stderr_actual d)) w1
                else w1);
          w3 = (if length backends > 0
                then (if length (stdout_expected d) > 0
                      then print (StdoutDiff (stdout_expected d) (stdout_actual d)) w2
                      else w2)
                else w2)
      in show_failures backends rest (print Blank w3))"

text \<open>
  \<open>run_tests\<close> returns nothing in the source; here it returns the values its local
  variables have at its end.
\<close>

record result =
  res_ok :: nat
  res_bad :: nat
  res_total :: nat
  res_failures :: "(str \<times> data) list"
  res_success :: bool

definition run_tests ::
  "env \<Rightarrow> str \<Rightarrow> str list \<Rightarrow> str \<Rightarrow> str list \<Rightarrow> world \<Rightarrow> (exn + result) \<times> world" where
  "run_tests e path backends pre exts w =
     (let w0 = print (Banner pre backends exts) w
      in case build_list [] (lit ''testsuite/good'') True w0 of
           Inl x \<Rightarrow> (Inl x, w0)
         | Inr t1 \<Rightarrow>
             (case build_list t1 (lit ''testsuite/bad'') False w0 of
                Inl x \<Rightarrow> (Inl x, w0)
              | Inr t2 \<Rightarrow>
                  (case build_exts t2 exts w0 of
                     Inl x \<Rightarrow> (Inl x, w0)
                   | Inr test_files \<Rightarrow>
                       (let tests_total = length test_files
                        in case (if backends = []
                                 then test_loop e (join path pre) None (lit ''typecheck'')
                                        tests_total test_files (0, 0, []) w0
                                 else backend_loop e path pre
                                        (platform_system e = lit ''Darwin'')
                                        tests_total test_files backends (0, 0, []) w0) of
                             (Inl x, w1) \<Rightarrow> (Inl x, w1)
                           | (Inr (tests_ok, tests_bad, failures), w1) \<Rightarrow>
                               (let w2 = print Blank w1;
                                    success = (tests_ok = tests_total)
                                in (Inr \<lparr>res_ok = tests_ok, res_bad = tests_bad,
                                         res_total = tests_total,
                                         res_failures = failures,
                                         res_success = success\<rparr>,
                                    if success then print AllSucceeded w2
                                    else show_failures backends failures
                                           (print SomeFailed w2)))))))"

section \<open>The session\<close>

text \<open>
  The parsed command line, as \<open>parse_args\<close> gives it: \<open>main\<close> is modelled from
  there on.
\<close>

record namespace =
  ns_submission :: str
  ns_s :: str
  ns_llvm :: bool
  ns_x86 :: bool
  ns_x64 :: bool
  ns_x :: "str list"
  ns_archive :: bool
  ns_noclean :: bool
  ns_list :: bool

definition check_contents :: "str \<Rightarrow> world \<Rightarrow> exn option" where
  "check_contents path w =
     (if \<not> isdir w (join path (lit ''doc''))
      then Some (TestingException (SubmissionLacks (lit ''doc'')))
      else if \<not> isdir w (join path (lit ''lib''))
      then Some (TestingException (SubmissionLacks (lit ''lib'')))
      else if \<not> isdir w (join path (lit ''src''))
      then Some (TestingException (SubmissionLacks (lit ''src'')))
      else if \<not> isfile w (join path (lit ''Makefile''))
      then Some (TestingException (SubmissionLacks (lit ''Makefile'')))
      else None)"

definition pick_backends :: "namespace \<Rightarrow> str list" where
  "pick_backends ns =
     (if ns_llvm ns then [lit ''llvm''] else [])
     @ (if ns_x86 ns then [lit ''x86''] else [])
     @ (if ns_x64 ns then [lit ''x64''] else [])"

text \<open>
  The statements of the \<open>try\<close> block that come before the call of \<open>run_tests\<close>:
  the temporary directory made (or the empty string), what was raised or the path of the
  submission, and the world left.
\<close>

definition prepare :: "env \<Rightarrow> namespace \<Rightarrow> world \<Rightarrow> str \<times> (exn + str) \<times> world" where
  "prepare e ns w =
     (let backends = pick_backends ns
      in case (if ns_archive ns
               then (let tmpdir = mkdtemp_name e (lit ''testing_'') (getcwd e) (fs w)
                     in case check_archive e (ns_submission ns) tmpdir
                               ((fs w)(tmpdir \<mapsto> Dir [])) of
                          (Some x, f) \<Rightarrow> (tmpdir, Inl x, w\<lparr>fs := f\<rparr>)
                        | (None, f) \<Rightarrow> (tmpdir, Inr tmpdir, w\<lparr>fs := f\<rparr>))
               else ([], Inr (ns_submission ns), w)) of
           (tmpdir, Inl x, w1) \<Rightarrow> (tmpdir, Inl x, w1)
         | (tmpdir, Inr path, w1) \<Rightarrow>
             (case check_contents path w1 of
                Some x \<Rightarrow> (tmpdir, Inl x, w1)
              | None \<Rightarrow>
                  (case check_build e path (ns_s ns) backends (fs w1) of
                     (Some x, f) \<Rightarrow> (tmpdir, Inl x, w1\<lparr>fs := f\<rparr>)
                   | (None, f) \<Rightarrow> (tmpdir, Inr path, w1\<lparr>fs := f\<rparr>))))"

text \<open>
  The whole \<open>try\<close> block: the temporary directory, what was raised or what
  \<open>run_tests\<close> gave, and the world left.
\<close>

definition main_try :: "env \<Rightarrow> namespace \<Rightarrow> world \<Rightarrow> str \<times> (exn + result) \<times> world" where
  "main_try e ns w =
     (case prepare e ns w of
        (tmpdir, Inl x, w1) \<Rightarrow> (tmpdir, Inl x, w1)
      | (tmpdir, Inr path, w1) \<Rightarrow>
          (case run_tests e path (pick_backends ns) (ns_s ns) (ns_x ns) w1 of
             (r, w2) \<Rightarrow> (tmpdir, r, w2)))"

text \<open>
  The \<open>try\<close> statement with its \<open>except\<close> and \<open>finally\<close> clauses, giving the exit
  code. Both \<open>except\<close> clauses set \<open>failure\<close>; an \<open>OSError\<close> from launching
  \<open>rm\<close> in the \<open>finally\<close> clause leaves \<open>main\<close> uncaught, and the interpreter
  exits with 1.
\<close>

definition main_session :: "env \<Rightarrow> namespace \<Rightarrow> world \<Rightarrow> int \<times> world" where
  "main_session e ns w =
     (case main_try e ns w of
        (tmpdir, r, w1) \<Rightarrow>
          (let failure = (case r of Inl _ \<Rightarrow> True | Inr _ \<Rightarrow> False)
           in case (if \<not> ns_noclean ns \<and> ns_archive ns
                    then subprocess_run e [lit ''rm'', lit ''-rf'', tmpdir] Inherit
                           (print (RemovingTemporaryFiles tmpdir) w1)
                    else (Completed 0 [] [], w1)) of
                (SpawnError errno strerror, w2) \<Rightarrow> (1, w2)
              | (Completed returncode out err, w2) \<Rightarrow>
                  (if failure then 1 else 0, clean_files [lit ''a.out''] w2)))"

text \<open>
  \<open>main\<close> gives the exit code of the process. Before the \<open>try\<close> statement it lists
  \<open>testsuite/extensions\<close> (an exception there is caught by nothing, and the
  interpreter exits with 1), serves \<open>--list\<close>, and exits with 1 when a requested
  extension is not in the listing or when the submission is not a file (with
  \<open>--archive\<close>) or not a directory (without).
\<close>

definition main :: "env \<Rightarrow> namespace \<Rightarrow> world \<Rightarrow> int \<times> world" where
  "main e ns w =
     (case listdir w (lit ''testsuite/extensions'') of
        Inl x \<Rightarrow> (1, w)
      | Inr avail_exts \<Rightarrow>
          if ns_list ns then (0, print (ExtensionList (sort avail_exts)) w)
          else if list_ex (\<lambda>ext. ext \<notin> set avail_exts) (ns_x ns) then (1, w)
          else if ns_archive ns \<and> \<not> isfile w (ns_submission ns) then (1, w)
          else if \<not> ns_archive ns \<and> \<not> isdir w (ns_submission ns) then (1, w)
          else main_session e ns w)"

section \<open>Example sessions\<close>

text \<open>
  A test suite with one extension (without tests) and one good test \<open>t\<close>, which has
  no input and no output file, and a submission \<open>sub\<close>. The compiler of the LLVM backend, \<open>sub/jlc\<close>, is broken: it rejects every
  program. Every other process (the compiler \<open>sub/jlc_x86\<close>, the tools, the program
  built) exits with 0, prints nothing, and writes \<open>OK\<close> and a newline to standard error.
\<close>

definition tiny_fs :: filesystem where
  "tiny_fs =
     [lit ''testsuite/extensions'' \<mapsto> Dir [lit ''arrays1''],
      lit ''testsuite/extensions/arrays1'' \<mapsto> Dir [],
      lit ''testsuite/good'' \<mapsto> Dir [lit ''t.jl'', lit ''notes.txt''],
      lit ''testsuite/good/t.jl'' \<mapsto> File ''src'',
      lit ''testsuite/good/notes.txt'' \<mapsto> File ''x'',
      lit ''testsuite/bad'' \<mapsto> Dir [],
      lit ''sub'' \<mapsto> Dir [lit ''doc'', lit ''lib'', lit ''src'', lit ''Makefile''],
      lit ''sub/doc'' \<mapsto> Dir [],
      lit ''sub/lib'' \<mapsto> Dir [],
      lit ''sub/src'' \<mapsto> Dir [],
      lit ''sub/Makefile'' \<mapsto> File []]"

definition tiny_env :: env where
  "tiny_env =
     \<lparr>spawn = (\<lambda>argv stdi f.
         (if argv = [lit ''sub/jlc''] then Completed 1 [] ''Parse ERROR at line 3''
          else Completed 0 [] ''OK\<newline>'', f)),
      mkstemp_name = (\<lambda>pre suf dir f. join dir (pre @ lit ''q7'' @ suf)),
      mkdtemp_name = (\<lambda>pre dir f. join dir (pre @ lit ''q7'')),
      getcwd = lit ''/w'',
      platform_system = lit ''Linux'',
      check_archive = (\<lambda>path target f. (None, f)),
      check_build = (\<lambda>path pre backends f. (None, f))\<rparr>"

definition tiny_world :: world where
  "tiny_world = \<lparr>fs = tiny_fs, trace = [], printed = []\<rparr>"

definition tiny_ns :: "bool \<Rightarrow> bool \<Rightarrow> namespace" where
  "tiny_ns with_llvm with_x86 =
     \<lparr>ns_submission = lit ''sub'', ns_s = lit ''jlc'', ns_llvm = with_llvm,
      ns_x86 = with_x86, ns_x64 = False, ns_x = [], ns_archive = False,
      ns_noclean = False, ns_list = False\<rparr>"

text \<open>
  A test \<open>t\<close> whose output file holds \<open>25\<close>, a carriage return and a line feed, with
  processes that all exit with 0 and print these same four bytes (and \<open>OK\<close> on standard
  error).
\<close>

definition crlf_bytes :: bytes where
  "crlf_bytes = [CHR ''2'', CHR ''5'', CHR 0x0D, CHR 0x0A]"

definition crlf_env :: env where
  "crlf_env = tiny_env\<lparr>spawn := (\<lambda>argv stdi f. (Completed 0 crlf_bytes ''OK'', f))\<rparr>"

definition crlf_world :: world where
  "crlf_world =
     \<lparr>fs = [lit ''t.jl'' \<mapsto> File ''src'', lit ''t.output'' \<mapsto> File crlf_bytes],
      trace = [], printed = []\<rparr>"

text \<open>
  Tools that all fail: each process writes a file \<open>main.bc\<close> and exits with 1.
\<close>

definition failing_env :: env where
  "failing_env =
     tiny_env\<lparr>spawn := (\<lambda>argv stdi f.
        (Completed 1 [] ''ERROR'', f(lit ''main.bc'' \<mapsto> File ''bc'')))\<rparr>"

text \<open>A working directory without the \<open>testsuite\<close> directories.\<close>

definition bare_world :: world where
  "bare_world = \<lparr>fs = Map.empty, trace = [], printed = []\<rparr>"

section \<open>Properties\<close>

text \<open>The definitions unfolded when a concrete session is evaluated.\<close>

lemmas path_defs = lit_def join_def splitext_def rfind_def Let_def suffix_to_prefix
lemmas fs_defs = isfile_def isdir_def listdir_def open_file_def write_file_def os_remove_def
  print_def subprocess_run_def mkstemp_def
lemmas str_defs = utf8_decode_def utf8_cont_def utf8_enc1_def strip_def isspace_def
lemmas prog_defs = run_compiler_def run_command_def link_llvm_def link_x86_def exec_test_def
  open_input_def read_expected_def build_list_def run_tests_def check_contents_def
  pick_backends_def prepare_def main_try_def main_session_def main_def
lemmas tiny_defs = tiny_env_def tiny_world_def tiny_fs_def tiny_ns_def

subsection \<open>Strings\<close>

lemma str_in_iff: "str_in sub s \<longleftrightarrow> (\<exists>l r. s = l @ sub @ r)"
proof (induction s)
  case Nil
  then show ?case by auto
next
  case (Cons c s)
  show ?case
  proof
    assume "str_in sub (c # s)"
    then consider "prefix sub (c # s)" | "str_in sub s" by auto
    then show "\<exists>l r. c # s = l @ sub @ r"
    proof cases
      case 1
      then obtain r where "c # s = sub @ r" by (auto simp: prefix_def)
      then have "c # s = [] @ sub @ r" by simp
      then show ?thesis by blast
    next
      case 2
      with Cons obtain l r where "s = l @ sub @ r" by blast
      then have "c # s = (c # l) @ sub @ r" by simp
      then show ?thesis by blast
    qed
  next
    assume "\<exists>l r. c # s = l @ sub @ r"
    then obtain l r where lr: "c # s = l @ sub @ r" by blast
    show "str_in sub (c # s)"
    proof (cases l)
      case Nil
      with lr have "prefix sub (c # s)" by (simp add: prefix_def)
      then show ?thesis by simp
    next
      case (Cons a l')
      with lr have "s = l' @ sub @ r" by simp
      with Cons.IH have "str_in sub s" by blast
      then show ?thesis by simp
    qed
  qed
qed

lemma strip_decomp: "\<exists>l r. s = l @ strip s @ r"
proof -
  let ?m = "dropWhile isspace s"
  have 1: "s = takeWhile isspace s @ ?m" by simp
  have 2: "?m = strip s @ rev (takeWhile isspace (rev ?m))"
    unfolding strip_def
    by (metis rev_append rev_rev_ident takeWhile_dropWhile_id)
  from 1 2 show ?thesis by metis
qed

lemma dropWhile_keeps:
  assumes "\<not> P a"
  shows "\<exists>l'. dropWhile P (l @ (a # sub) @ r) = l' @ (a # sub) @ r"
proof (induction l)
  case Nil
  from assms have "dropWhile P ([] @ (a # sub) @ r) = [] @ (a # sub) @ r" by simp
  then show ?case by blast
next
  case (Cons b l)
  show ?case
  proof (cases "P b")
    case True
    with Cons show ?thesis by simp
  next
    case False
    then have "dropWhile P ((b # l) @ (a # sub) @ r) = (b # l) @ (a # sub) @ r" by simp
    then show ?thesis by blast
  qed
qed

lemma strip_keeps:
  assumes "sub \<noteq> []" "\<not> isspace (hd sub)" "\<not> isspace (last sub)" "s = l @ sub @ r"
  shows "\<exists>l' r'. strip s = l' @ sub @ r'"
proof -
  from assms(1) obtain a sub' where sub: "sub = a # sub'" by (cases sub) auto
  with assms(2) have a: "\<not> isspace a" by simp
  from dropWhile_keeps [of isspace a l sub' r] a sub assms(4)
  obtain l' where 1: "dropWhile isspace s = l' @ sub @ r" by auto
  from assms(1) obtain z sub'' where rsub: "rev sub = z # sub''" by (cases "rev sub") auto
  then have "z = last sub" by (metis hd_rev list.sel(1))
  with assms(3) have z: "\<not> isspace z" by simp
  have "rev (dropWhile isspace s) = rev r @ rev sub @ rev l'" using 1 by simp
  with dropWhile_keeps [of isspace z "rev r" sub'' "rev l'"] z rsub
  obtain r' where "dropWhile isspace (rev (dropWhile isspace s)) = r' @ rev sub @ rev l'"
    by auto
  then have "strip s = l' @ sub @ rev r'" by (simp add: strip_def)
  then show ?thesis by blast
qed

lemma strip_ERROR_iff:
  "(\<exists>l r. strip s = l @ lit ''ERROR'' @ r) \<longleftrightarrow> (\<exists>l r. s = l @ lit ''ERROR'' @ r)"
proof
  assume "\<exists>l r. strip s = l @ lit ''ERROR'' @ r"
  then obtain l r where "strip s = l @ lit ''ERROR'' @ r" by blast
  moreover obtain l0 r0 where "s = l0 @ strip s @ r0" using strip_decomp by blast
  ultimately have "s = (l0 @ l) @ lit ''ERROR'' @ (r @ r0)" by simp
  then show "\<exists>l r. s = l @ lit ''ERROR'' @ r" by blast
next
  assume "\<exists>l r. s = l @ lit ''ERROR'' @ r"
  then obtain l r where "s = l @ lit ''ERROR'' @ r" by blast
  then show "\<exists>l' r'. strip s = l' @ lit ''ERROR'' @ r'"
    by (intro strip_keeps) (simp_all add: lit_def isspace_def)
qed

subsection \<open>The compile step\<close>

text \<open>
  Claim C3. For a test expected to succeed, when the compiler could be launched and its
  two output streams decode, the compile step passes if and only if the text of standard
  error, with the white space at its two ends removed, is exactly \<open>OK\<close> and the return
  code is 0.
\<close>

theorem run_compiler_good:
  assumes "open_file w src_file = Inr infile"
    and "fst (subprocess_run e [exe] (Piped infile) w) = Completed returncode out err"
    and "utf8_decode out = Some stdout"
    and "utf8_decode err = Some stderr"
  shows "run_compiler e exe src_file True w =
     (Inr (strip stderr = lit ''OK'' \<and> returncode = 0,
           \<lparr>stderr_actual = strip stderr, stderr_expected = lit ''OK'',
            stdout_expected = [], stdout_actual = [], stdout_compiler = stdout\<rparr>),
      snd (subprocess_run e [exe] (Piped infile) w))"
  using assms
  by (cases "subprocess_run e [exe] (Piped infile) w")
     (simp add: run_compiler_def Let_def)

theorem run_compiler_good_witness:
  "open_file tiny_world (lit ''testsuite/good/t.jl'') = Inr ''src''
   \<and> fst (subprocess_run tiny_env [lit ''sub/jlc_x86''] (Piped ''src'') tiny_world)
       = Completed 0 [] ''OK\<newline>''
   \<and> utf8_decode [] = Some []
   \<and> utf8_decode ''OK\<newline>'' = Some (lit ''OK\<newline>'')
   \<and> fst (run_compiler tiny_env (lit ''sub/jlc_x86'') (lit ''testsuite/good/t.jl'') True
            tiny_world)
       = Inr (True,
              \<lparr>stderr_actual = lit ''OK'', stderr_expected = lit ''OK'',
               stdout_expected = [], stdout_actual = [], stdout_compiler = []\<rparr>)"
proof -
  have h1: "open_file tiny_world (lit ''testsuite/good/t.jl'') = Inr ''src''"
    by (simp add: tiny_defs fs_defs path_defs)
  have h2: "fst (subprocess_run tiny_env [lit ''sub/jlc_x86''] (Piped ''src'') tiny_world)
              = Completed 0 [] ''OK\<newline>''"
    by (simp add: tiny_defs fs_defs path_defs)
  have h3: "utf8_decode [] = Some []" by (simp add: str_defs)
  have h4: "utf8_decode ''OK\<newline>'' = Some (lit ''OK\<newline>'')"
    by (simp add: str_defs lit_def)
  have s: "strip (lit ''OK\<newline>'') = lit ''OK''" by (simp add: str_defs lit_def)
  from run_compiler_good [OF h1 h2 h3 h4] h1 h2 h3 h4 s show ?thesis by simp
qed

text \<open>
  Claim C4. For a test expected to fail, when the compiler could be launched and its two
  output streams decode, the compile step passes if and only if \<open>ERROR\<close> occurs
  somewhere in the text of standard error (whatever stands before and after it) and the
  return code is not 0. The source looks for \<open>ERROR\<close> in the stripped text; stripping
  cannot remove an occurrence, since \<open>ERROR\<close> holds no white space.
\<close>

theorem run_compiler_bad:
  assumes "open_file w src_file = Inr infile"
    and "fst (subprocess_run e [exe] (Piped infile) w) = Completed returncode out err"
    and "utf8_decode out = Some stdout"
    and "utf8_decode err = Some stderr"
  shows "run_compiler e exe src_file False w =
     (Inr ((\<exists>l r. stderr = l @ lit ''ERROR'' @ r) \<and> returncode \<noteq> 0,
           \<lparr>stderr_actual = strip stderr, stderr_expected = lit ''ERROR'',
            stdout_expected = [], stdout_actual = [], stdout_compiler = stdout\<rparr>),
      snd (subprocess_run e [exe] (Piped infile) w))"
  using assms
  by (cases "subprocess_run e [exe] (Piped infile) w")
     (simp add: run_compiler_def Let_def str_in_iff strip_ERROR_iff)

theorem run_compiler_bad_witness:
  "open_file tiny_world (lit ''testsuite/good/t.jl'') = Inr ''src''
   \<and> fst (subprocess_run tiny_env [lit ''sub/jlc''] (Piped ''src'') tiny_world)
       = Completed 1 [] ''Parse ERROR at line 3''
   \<and> utf8_decode [] = Some []
   \<and> utf8_decode ''Parse ERROR at line 3'' = Some (lit ''Parse ERROR at line 3'')
   \<and> fst (run_compiler tiny_env (lit ''sub/jlc'') (lit ''testsuite/good/t.jl'') False
            tiny_world)
       = Inr (True,
              \<lparr>stderr_actual = lit ''Parse ERROR at line 3'',
               stderr_expected = lit ''ERROR'',
               stdout_expected = [], stdout_actual = [], stdout_compiler = []\<rparr>)"
proof -
  have h1: "open_file tiny_world (lit ''testsuite/good/t.jl'') = Inr ''src''"
    by (simp add: tiny_defs fs_defs path_defs)
  have h2: "fst (subprocess_run tiny_env [lit ''sub/jlc''] (Piped ''src'') tiny_world)
              = Completed 1 [] ''Parse ERROR at line 3''"
    by (simp add: tiny_defs fs_defs path_defs)
  have h3: "utf8_decode [] = Some []" by (simp add: str_defs)
  have h4: "utf8_decode ''Parse ERROR at line 3'' = Some (lit ''Parse ERROR at line 3'')"
    by (simp add: str_defs lit_def)
  have s: "strip (lit ''Parse ERROR at line 3'') = lit ''Parse ERROR at line 3''"
    by (simp add: str_defs lit_def)
  have "lit ''Parse ERROR at line 3'' = lit ''Parse '' @ lit ''ERROR'' @ lit '' at line 3''"
    by (simp add: lit_def)
  then have c: "\<exists>l r. lit ''Parse ERROR at line 3'' = l @ lit ''ERROR'' @ r" by blast
  from run_compiler_bad [OF h1 h2 h3 h4] h1 h2 h3 h4 s c show ?thesis by simp
qed

subsection \<open>Linking and running only after a good compile\<close>

lemma subprocess_run_trace:
  "trace (snd (subprocess_run e argv stdi w)) = trace w @ [argv]"
  by (simp add: subprocess_run_def split: prod.splits)

lemma run_compiler_trace:
  "trace (snd (run_compiler e exe src is_good w)) = trace w
   \<or> trace (snd (run_compiler e exe src is_good w)) = trace w @ [[exe]]"
proof (cases "open_file w src")
  case (Inl x)
  then show ?thesis by (cases x) (simp_all add: run_compiler_def)
next
  case (Inr infile)
  obtain p w' where p: "subprocess_run e [exe] (Piped infile) w = (p, w')"
    by (cases "subprocess_run e [exe] (Piped infile) w")
  with subprocess_run_trace [of e "[exe]" "Piped infile" w]
  have t: "trace w' = trace w @ [[exe]]" by simp
  show ?thesis
  proof (cases p)
    case (SpawnError errno strerror)
    with Inr p t show ?thesis by (simp add: run_compiler_def)
  next
    case (Completed rc out err)
    with Inr p t show ?thesis
      by (cases "utf8_decode out"; cases "utf8_decode err")
         (simp_all add: run_compiler_def Let_def)
  qed
qed

text \<open>
  Claim C5. When the test is expected to fail, or no linker is given (type checking
  only), or the compile step did not pass (it failed or it raised), \<open>exec_test\<close> does
  what \<open>run_compiler\<close> does and nothing more: same result, same world. So the only
  process it may have launched is the compiler; neither a linker nor the program built
  is run.
\<close>

theorem exec_test_compile_only:
  assumes "\<not> is_good \<or> linker = None
           \<or> (\<forall>d. fst (run_compiler e exe (filename @ lit ''.jl'') is_good w) \<noteq> Inr (True, d))"
  shows "exec_test e exe filename is_good linker w
           = run_compiler e exe (filename @ lit ''.jl'') is_good w
         \<and> (trace (snd (exec_test e exe filename is_good linker w)) = trace w
            \<or> trace (snd (exec_test e exe filename is_good linker w)) = trace w @ [[exe]])"
proof -
  have eq: "exec_test e exe filename is_good linker w
              = run_compiler e exe (filename @ lit ''.jl'') is_good w"
  proof (cases "run_compiler e exe (filename @ lit ''.jl'') is_good w")
    case (Pair r w1)
    show ?thesis
    proof (cases r)
      case (Inl x)
      with Pair show ?thesis by (simp add: exec_test_def Let_def)
    next
      case (Inr cd)
      obtain c d where cd: "cd = (c, d)" by (cases cd)
      from assms Pair Inr cd have "\<not> is_good \<or> linker = None \<or> \<not> c" by auto
      with Pair Inr cd show ?thesis by (auto simp: exec_test_def Let_def)
    qed
  qed
  with run_compiler_trace [of e exe "filename @ lit ''.jl''" is_good w] show ?thesis by simp
qed

theorem exec_test_compile_only_witness:
  "exec_test tiny_env (lit ''sub/jlc'') (lit ''testsuite/good/t'') False
       (Some (LinkLLVM (lit ''sub''))) tiny_world
     = run_compiler tiny_env (lit ''sub/jlc'') (lit ''testsuite/good/t.jl'') False tiny_world
   \<and> trace (snd (exec_test tiny_env (lit ''sub/jlc'') (lit ''testsuite/good/t'') False
                   (Some (LinkLLVM (lit ''sub''))) tiny_world)) = [[lit ''sub/jlc'']]"
proof -
  have t: "trace (snd (run_compiler tiny_env (lit ''sub/jlc'') (lit ''testsuite/good/t.jl'')
                        False tiny_world)) = [[lit ''sub/jlc'']]"
    by (simp add: prog_defs tiny_defs path_defs fs_defs str_defs)
  have j: "lit ''testsuite/good/t'' @ lit ''.jl'' = lit ''testsuite/good/t.jl''"
    by (simp add: lit_def)
  from exec_test_compile_only [of False "Some (LinkLLVM (lit ''sub''))" tiny_env
         "lit ''sub/jlc''" "lit ''testsuite/good/t''" tiny_world] t j
  show ?thesis by simp
qed

subsection \<open>The counters of a pass\<close>

lemma test_loop_counts:
  "fst (test_loop e full_name linker title tests_total test_files (ok, bad, failures) w)
     = Inr (ok', bad', failures')
   \<Longrightarrow> ok' + bad' = ok + bad + length test_files"
proof (induction test_files arbitrary: ok bad failures w)
  case Nil
  then show ?case by simp
next
  case (Cons t test_files)
  obtain filename is_good where t: "t = (filename, is_good)" by (cases t)
  obtain r w1 where r: "exec_test e full_name filename is_good linker w = (r, w1)"
    by (cases "exec_test e full_name filename is_good linker w")
  show ?case
  proof (cases r)
    case (Inl x)
    with Cons.prems t r show ?thesis by simp
  next
    case (Inr p)
    obtain is_ok d where p: "p = (is_ok, d)" by (cases p)
    show ?thesis
    proof (cases is_ok)
      case True
      with Cons.prems t r Inr p
      have "fst (test_loop e full_name linker title tests_total test_files
                   (ok + 1, bad, failures)
                   (print (Status title (ok + 1) bad tests_total) w1))
              = Inr (ok', bad', failures')" by simp
      from Cons.IH [OF this] show ?thesis by simp
    next
      case False
      with Cons.prems t r Inr p
      have "fst (test_loop e full_name linker title tests_total test_files
                   (ok, bad + 1, failures @ [(filename, d)])
                   (print (Status title ok (bad + 1) tests_total) w1))
              = Inr (ok', bad', failures')" by simp
      from Cons.IH [OF this] show ?thesis by simp
    qed
  qed
qed

text \<open>One step of the loop over the backends, with the pass named.\<close>

lemma backend_loop_step:
  "backend_loop e path pre link_macho tests_total test_files (sfx # rest)
       (ok, bad, failures) w =
     (case test_loop e
             (join path (pre @ (if sfx = lit ''llvm'' then [] else lit ''_'' @ sfx)))
             (Some (if sfx = lit ''llvm'' then LinkLLVM path
                    else if sfx = lit ''x86'' then LinkX86 path False link_macho
                    else LinkX86 path True link_macho))
             sfx tests_total test_files (0, 0, failures) w of
        (Inl x, w1) \<Rightarrow> (Inl x, w1)
      | (Inr st, w1) \<Rightarrow>
          backend_loop e path pre link_macho tests_total test_files rest st
            (print Blank w1))"
  by (simp add: Let_def)

lemma backend_loop_counts:
  "backends \<noteq> [] \<Longrightarrow>
   fst (backend_loop e path pre link_macho tests_total test_files backends st w)
     = Inr (ok', bad', failures')
   \<Longrightarrow> ok' + bad' = length test_files"
proof (induction backends arbitrary: st w)
  case Nil
  then show ?case by simp
next
  case (Cons sfx rest)
  obtain ok bad failures where st: "st = (ok, bad, failures)" by (cases st)
  let ?pass = "test_loop e
             (join path (pre @ (if sfx = lit ''llvm'' then [] else lit ''_'' @ sfx)))
             (Some (if sfx = lit ''llvm'' then LinkLLVM path
                    else if sfx = lit ''x86'' then LinkX86 path False link_macho
                    else LinkX86 path True link_macho))
             sfx tests_total test_files (0, 0, failures) w"
  obtain r w1 where r: "?pass = (r, w1)" by (cases ?pass)
  show ?case
  proof (cases r)
    case (Inl x)
    with Cons.prems(2) st r show ?thesis
      by (simp only: backend_loop_step) simp
  next
    case (Inr st1)
    obtain ok1 bad1 f1 where st1: "st1 = (ok1, bad1, f1)" by (cases st1)
    from r Inr st1 have "fst ?pass = Inr (ok1, bad1, f1)" by simp
    from test_loop_counts [OF this] have c1: "ok1 + bad1 = length test_files" by simp
    from Cons.prems(2) st r Inr
    have rest: "fst (backend_loop e path pre link_macho tests_total test_files rest st1
                  (print Blank w1)) = Inr (ok', bad', failures')"
      by (simp only: backend_loop_step) simp
    show ?thesis
    proof (cases rest)
      case Nil
      with rest st1 c1 show ?thesis by simp
    next
      case (Cons a list)
      then have "rest \<noteq> []" by simp
      from Cons.IH [OF this rest] show ?thesis .
    qed
  qed
qed

lemma backend_loop_append:
  "backend_loop e path pre link_macho tests_total test_files (bs1 @ bs2) st w =
     (case backend_loop e path pre link_macho tests_total test_files bs1 st w of
        (Inl x, w1) \<Rightarrow> (Inl x, w1)
      | (Inr st1, w1) \<Rightarrow>
          backend_loop e path pre link_macho tests_total test_files bs2 st1 w1)"
proof (induction bs1 arbitrary: st w)
  case Nil
  then show ?case by simp
next
  case (Cons sfx bs1)
  obtain ok bad failures where st: "st = (ok, bad, failures)" by (cases st)
  show ?case
    unfolding st append_Cons backend_loop_step
    by (simp add: Cons.IH split: prod.splits sum.splits)
qed

lemma backend_loop_prefix:
  assumes "fst (backend_loop e path pre link_macho tests_total test_files (bs1 @ bs2) st w)
             = Inr stf"
  shows "\<exists>st1. fst (backend_loop e path pre link_macho tests_total test_files bs1 st w)
             = Inr st1"
proof -
  obtain r w1 where r: "backend_loop e path pre link_macho tests_total test_files bs1 st w
                          = (r, w1)"
    by (cases "backend_loop e path pre link_macho tests_total test_files bs1 st w")
  show ?thesis
  proof (cases r)
    case (Inl x)
    with assms r show ?thesis by (simp add: backend_loop_append)
  next
    case (Inr st1)
    with r have "fst (backend_loop e path pre link_macho tests_total test_files bs1 st w)
                   = Inr st1" by simp
    then show ?thesis by (rule exI)
  qed
qed

text \<open>
  Claim C6. When \<open>run_tests\<close> ends without an exception, the catalogue was built (the
  three \<open>build_list\<close> steps gave the list \<open>test_files\<close>), \<open>tests_total\<close> is its
  length, and the two counters add up to that length at the end. With backends, the same
  holds at the end of every pass: the loop over the backends, stopped after any number
  (not zero) of the passes requested, leaves counters that add up to the number of the
  tests found. This rests on the counters being set to 0 at the start of each pass and
  on each test adding one to exactly one of them.
\<close>

theorem pass_counts:
  assumes "fst (run_tests e path backends pre exts w) = Inr r"
  shows "\<exists>t1 t2 test_files.
           build_list [] (lit ''testsuite/good'') True (print (Banner pre backends exts) w)
             = Inr t1
         \<and> build_list t1 (lit ''testsuite/bad'') False (print (Banner pre backends exts) w)
             = Inr t2
         \<and> build_exts t2 exts (print (Banner pre backends exts) w) = Inr test_files
         \<and> res_total r = length test_files
         \<and> res_ok r + res_bad r = length test_files
         \<and> (\<forall>bs1 bs2. backends = bs1 @ bs2 \<and> bs1 \<noteq> [] \<longrightarrow>
               (\<exists>tests_ok tests_bad failures.
                  fst (backend_loop e path pre (platform_system e = lit ''Darwin'')
                         (length test_files) test_files bs1 (0, 0, [])
                         (print (Banner pre backends exts) w))
                    = Inr (tests_ok, tests_bad, failures)
                  \<and> tests_ok + tests_bad = length test_files))"
proof -
  let ?w0 = "print (Banner pre backends exts) w"
  from assms obtain t1 where t1: "build_list [] (lit ''testsuite/good'') True ?w0 = Inr t1"
    by (cases "build_list [] (lit ''testsuite/good'') True ?w0")
       (simp_all add: run_tests_def Let_def)
  from assms t1 obtain t2 where t2: "build_list t1 (lit ''testsuite/bad'') False ?w0 = Inr t2"
    by (cases "build_list t1 (lit ''testsuite/bad'') False ?w0")
       (simp_all add: run_tests_def Let_def)
  from assms t1 t2 obtain test_files where tf: "build_exts t2 exts ?w0 = Inr test_files"
    by (cases "build_exts t2 exts ?w0") (simp_all add: run_tests_def Let_def)
  let ?loop = "if backends = []
               then test_loop e (join path pre) None (lit ''typecheck'')
                      (length test_files) test_files (0, 0, []) ?w0
               else backend_loop e path pre (platform_system e = lit ''Darwin'')
                      (length test_files) test_files backends (0, 0, []) ?w0"
  obtain lr w1 where lr: "?loop = (lr, w1)" by (cases ?loop)
  from assms t1 t2 tf lr obtain tests_ok tests_bad failures
    where st: "lr = Inr (tests_ok, tests_bad, failures)"
    by (cases lr) (auto simp: run_tests_def Let_def)
  from assms t1 t2 tf lr st
  have r: "res_ok r = tests_ok" "res_bad r = tests_bad" "res_total r = length test_files"
    by (auto simp: run_tests_def Let_def)
  have sum: "tests_ok + tests_bad = length test_files"
  proof (cases "backends = []")
    case True
    with lr st have "fst (test_loop e (join path pre) None (lit ''typecheck'')
                            (length test_files) test_files (0, 0, []) ?w0)
                       = Inr (tests_ok, tests_bad, failures)" by simp
    from test_loop_counts [OF this] show ?thesis by simp
  next
    case False
    with lr st have "fst (backend_loop e path pre (platform_system e = lit ''Darwin'')
                            (length test_files) test_files backends (0, 0, []) ?w0)
                       = Inr (tests_ok, tests_bad, failures)" by simp
    from backend_loop_counts [OF False this] show ?thesis .
  qed
  have passes: "\<forall>bs1 bs2. backends = bs1 @ bs2 \<and> bs1 \<noteq> [] \<longrightarrow>
               (\<exists>ok bad fl.
                  fst (backend_loop e path pre (platform_system e = lit ''Darwin'')
                         (length test_files) test_files bs1 (0, 0, []) ?w0)
                    = Inr (ok, bad, fl)
                  \<and> ok + bad = length test_files)"
  proof (intro allI impI)
    fix bs1 bs2
    assume a: "backends = bs1 @ bs2 \<and> bs1 \<noteq> []"
    then have ne: "backends \<noteq> []" by auto
    with lr st have "fst (backend_loop e path pre (platform_system e = lit ''Darwin'')
                            (length test_files) test_files (bs1 @ bs2) (0, 0, []) ?w0)
                       = Inr (tests_ok, tests_bad, failures)"
      using a by simp
    from backend_loop_prefix [OF this] obtain st1 where
      p: "fst (backend_loop e path pre (platform_system e = lit ''Darwin'')
                 (length test_files) test_files bs1 (0, 0, []) ?w0) = Inr st1" by blast
    obtain ok bad fl where st1: "st1 = (ok, bad, fl)" by (cases st1)
    from a have "bs1 \<noteq> []" by simp
    from backend_loop_counts [OF this p [unfolded st1]]
    have "ok + bad = length test_files" .
    with p st1 show "\<exists>ok bad fl.
                  fst (backend_loop e path pre (platform_system e = lit ''Darwin'')
                         (length test_files) test_files bs1 (0, 0, []) ?w0)
                    = Inr (ok, bad, fl)
                  \<and> ok + bad = length test_files" by blast
  qed
  from t1 t2 tf r sum passes show ?thesis by auto
qed

theorem pass_counts_witness:
  "fst (run_tests tiny_env (lit ''sub'') [lit ''llvm'', lit ''x86''] (lit ''jlc'') []
          tiny_world)
     = Inr \<lparr>res_ok = 1, res_bad = 0, res_total = 1,
            res_failures =
              [(lit ''testsuite/good/t'',
                \<lparr>stderr_actual = lit ''Parse ERROR at line 3'', stderr_expected = lit ''OK'',
                 stdout_expected = [], stdout_actual = [], stdout_compiler = []\<rparr>)],
            res_success = True\<rparr>
   \<and> fst (backend_loop tiny_env (lit ''sub'') (lit ''jlc'') False 1
            [(lit ''testsuite/good/t'', True)] [lit ''llvm''] (0, 0, [])
            (print (Banner (lit ''jlc'') [lit ''llvm'', lit ''x86''] []) tiny_world))
     = Inr (0, 1,
            [(lit ''testsuite/good/t'',
              \<lparr>stderr_actual = lit ''Parse ERROR at line 3'', stderr_expected = lit ''OK'',
               stdout_expected = [], stdout_actual = [], stdout_compiler = []\<rparr>)])
   \<and> (\<exists>t1 t2 test_files.
           build_list [] (lit ''testsuite/good'') True
             (print (Banner (lit ''jlc'') [lit ''llvm'', lit ''x86''] []) tiny_world) = Inr t1
         \<and> build_list t1 (lit ''testsuite/bad'') False
             (print (Banner (lit ''jlc'') [lit ''llvm'', lit ''x86''] []) tiny_world) = Inr t2
         \<and> build_exts t2 []
             (print (Banner (lit ''jlc'') [lit ''llvm'', lit ''x86''] []) tiny_world)
             = Inr test_files
         \<and> (1::nat) = length test_files
         \<and> (1::nat) + 0 = length test_files
         \<and> (\<forall>bs1 bs2. [lit ''llvm'', lit ''x86''] = bs1 @ bs2 \<and> bs1 \<noteq> [] \<longrightarrow>
               (\<exists>tests_ok tests_bad failures.
                  fst (backend_loop tiny_env (lit ''sub'') (lit ''jlc'')
                         (platform_system tiny_env = lit ''Darwin'')
                         (length test_files) test_files bs1 (0, 0, [])
                         (print (Banner (lit ''jlc'') [lit ''llvm'', lit ''x86''] [])
                            tiny_world))
                    = Inr (tests_ok, tests_bad, failures)
                  \<and> tests_ok + tests_bad = length test_files)))"
proof -
  have h: "fst (run_tests tiny_env (lit ''sub'') [lit ''llvm'', lit ''x86''] (lit ''jlc'') []
                  tiny_world)
     = Inr \<lparr>res_ok = 1, res_bad = 0, res_total = 1,
            res_failures =
              [(lit ''testsuite/good/t'',
                \<lparr>stderr_actual = lit ''Parse ERROR at line 3'', stderr_expected = lit ''OK'',
                 stdout_expected = [], stdout_actual = [], stdout_compiler = []\<rparr>)],
            res_success = True\<rparr>"
    by (simp add: prog_defs tiny_defs path_defs fs_defs str_defs)
  have p: "fst (backend_loop tiny_env (lit ''sub'') (lit ''jlc'') False 1
            [(lit ''testsuite/good/t'', True)] [lit ''llvm''] (0, 0, [])
            (print (Banner (lit ''jlc'') [lit ''llvm'', lit ''x86''] []) tiny_world))
     = Inr (0, 1,
            [(lit ''testsuite/good/t'',
              \<lparr>stderr_actual = lit ''Parse ERROR at line 3'', stderr_expected = lit ''OK'',
               stdout_expected = [], stdout_actual = [], stdout_compiler = []\<rparr>)])"
    by (simp add: prog_defs tiny_defs path_defs fs_defs str_defs)
  from pass_counts [OF h] h p show ?thesis by simp
qed

subsection \<open>Temporary files of the link step\<close>

lemma clean_files_keeps_absent:
  "\<not> isfile w name \<Longrightarrow> \<not> isfile (clean_files files w) name"
  by (induction files arbitrary: w) (auto simp: isfile_def os_remove_def)

lemma clean_files_removes:
  "name \<in> set files \<Longrightarrow> \<not> isfile (clean_files files w) name"
proof (induction files arbitrary: w)
  case Nil
  then show ?case by simp
next
  case (Cons f files)
  show ?case
  proof (cases "name = f")
    case True
    have "\<not> isfile (if isfile w f then os_remove f w else w) f"
      by (simp add: isfile_def os_remove_def)
    with True show ?thesis by (simp add: clean_files_keeps_absent)
  next
    case False
    with Cons show ?thesis by simp
  qed
qed

lemma snd_case_clean:
  "snd (case p of (r, w) \<Rightarrow> (r, clean_files files w)) = clean_files files (snd p)"
  by (cases p) simp

lemma link_llvm_shape:
  "\<exists>w4. snd (link_llvm e path source_str w)
     = clean_files [mkstemp_name e (lit ''test_llvm_'') (lit ''.bc'') (getcwd e) (fs w),
                    lit ''main.bc''] w4"
  unfolding link_llvm_def mkstemp_def Let_def prod.case snd_case_clean by blast

lemma link_x86_shape:
  "\<exists>w4. snd (link_x86 e path source_str is_x64 is_macho w)
     = clean_files [fst (mkstemp e (lit ''test_x86_'') (lit ''.s'') (getcwd e) w),
                    fst (mkstemp e (lit ''test_x86_'') (lit ''.o'') (getcwd e)
                           (snd (mkstemp e (lit ''test_x86_'') (lit ''.s'') (getcwd e) w)))]
         w4"
  unfolding link_x86_def mkstemp_def Let_def prod.case fst_conv snd_conv snd_case_clean
  by blast

text \<open>
  Claim C9. Whatever the tools do and however the link step ends (normally, with a tool
  that exits with a non-zero code, with a tool that cannot be launched, with streams that
  do not decode), none of its temporary files is left when it returns: the temporary
  file of \<open>link_llvm\<close> and \<open>main.bc\<close>, the temporary assembly and object
  files of \<open>link_x86\<close>. The model takes \<open>mkstemp\<close>, \<open>os.close\<close> and
  \<open>os.remove\<close> to succeed.
\<close>

theorem link_removes_temporaries:
  "\<not> isfile (snd (link_llvm e path source_str w))
       (mkstemp_name e (lit ''test_llvm_'') (lit ''.bc'') (getcwd e) (fs w))
   \<and> \<not> isfile (snd (link_llvm e path source_str w)) (lit ''main.bc'')
   \<and> \<not> isfile (snd (link_x86 e path source_str is_x64 is_macho w))
         (fst (mkstemp e (lit ''test_x86_'') (lit ''.s'') (getcwd e) w))
   \<and> \<not> isfile (snd (link_x86 e path source_str is_x64 is_macho w))
         (fst (mkstemp e (lit ''test_x86_'') (lit ''.o'') (getcwd e)
                 (snd (mkstemp e (lit ''test_x86_'') (lit ''.s'') (getcwd e) w))))"
proof -
  obtain w4 where l: "snd (link_llvm e path source_str w)
     = clean_files [mkstemp_name e (lit ''test_llvm_'') (lit ''.bc'') (getcwd e) (fs w),
                    lit ''main.bc''] w4"
    using link_llvm_shape by blast
  obtain w5 where x: "snd (link_x86 e path source_str is_x64 is_macho w)
     = clean_files [fst (mkstemp e (lit ''test_x86_'') (lit ''.s'') (getcwd e) w),
                    fst (mkstemp e (lit ''test_x86_'') (lit ''.o'') (getcwd e)
                           (snd (mkstemp e (lit ''test_x86_'') (lit ''.s'') (getcwd e) w)))]
         w5"
    using link_x86_shape by blast
  show ?thesis
    unfolding l x by (intro conjI clean_files_removes) simp_all
qed

theorem link_removes_temporaries_witness:
  "fst (link_llvm failing_env (lit ''sub'') (lit ''code'') tiny_world)
     = Inl (TestingException (CommandFailed (lit ''llvm-as'') (lit ''ERROR'')))
   \<and> \<not> isfile (snd (link_llvm failing_env (lit ''sub'') (lit ''code'') tiny_world))
         (lit ''/w/test_llvm_q7.bc'')
   \<and> \<not> isfile (snd (link_llvm failing_env (lit ''sub'') (lit ''code'') tiny_world))
         (lit ''main.bc'')
   \<and> fst (link_x86 failing_env (lit ''sub'') (lit ''code'') False False tiny_world)
     = Inl (TestingException (CommandFailed (lit ''nasm'') (lit ''ERROR'')))
   \<and> \<not> isfile (snd (link_x86 failing_env (lit ''sub'') (lit ''code'') False False
                       tiny_world)) (lit ''/w/test_x86_q7.s'')
   \<and> \<not> isfile (snd (link_x86 failing_env (lit ''sub'') (lit ''code'') False False
                       tiny_world)) (lit ''/w/test_x86_q7.o'')"
proof -
  have n1: "mkstemp_name failing_env (lit ''test_llvm_'') (lit ''.bc'') (getcwd failing_env)
              (fs tiny_world) = lit ''/w/test_llvm_q7.bc''"
    by (simp add: failing_env_def tiny_defs path_defs)
  have n2: "fst (mkstemp failing_env (lit ''test_x86_'') (lit ''.s'') (getcwd failing_env)
              tiny_world) = lit ''/w/test_x86_q7.s''"
    by (simp add: failing_env_def tiny_defs path_defs mkstemp_def)
  have n3: "fst (mkstemp failing_env (lit ''test_x86_'') (lit ''.o'') (getcwd failing_env)
              (snd (mkstemp failing_env (lit ''test_x86_'') (lit ''.s'')
                      (getcwd failing_env) tiny_world))) = lit ''/w/test_x86_q7.o''"
    by (simp add: failing_env_def tiny_defs path_defs mkstemp_def)
  have r1: "fst (link_llvm failing_env (lit ''sub'') (lit ''code'') tiny_world)
     = Inl (TestingException (CommandFailed (lit ''llvm-as'') (lit ''ERROR'')))"
    by (simp add: failing_env_def prog_defs tiny_defs path_defs fs_defs str_defs)
  have r2: "fst (link_x86 failing_env (lit ''sub'') (lit ''code'') False False tiny_world)
     = Inl (TestingException (CommandFailed (lit ''nasm'') (lit ''ERROR'')))"
    by (simp add: failing_env_def prog_defs tiny_defs path_defs fs_defs str_defs)
  from link_removes_temporaries [of failing_env "lit ''sub''" "lit ''code''" tiny_world
         False False] n1 n2 n3 r1 r2
  show ?thesis by simp
qed

subsection \<open>The exit code\<close>

lemma main_session_exit:
  "fst (main_session e ns w) =
     (if (\<exists>res. fst (snd (main_try e ns w)) = Inr res)
         \<and> (ns_noclean ns \<or> \<not> ns_archive ns
            \<or> (\<exists>returncode out err.
                  fst (subprocess_run e [lit ''rm'', lit ''-rf'', fst (main_try e ns w)]
                         Inherit
                         (print (RemovingTemporaryFiles (fst (main_try e ns w)))
                            (snd (snd (main_try e ns w)))))
                    = Completed returncode out err))
      then 0 else 1)"
proof -
  obtain tmpdir r w1 where t: "main_try e ns w = (tmpdir, r, w1)"
    by (cases "main_try e ns w")
  obtain p w2 where p: "subprocess_run e [lit ''rm'', lit ''-rf'', tmpdir] Inherit
                          (print (RemovingTemporaryFiles tmpdir) w1) = (p, w2)"
    by (cases "subprocess_run e [lit ''rm'', lit ''-rf'', tmpdir] Inherit
                 (print (RemovingTemporaryFiles tmpdir) w1)")
  show ?thesis
  proof (cases "\<not> ns_noclean ns \<and> ns_archive ns")
    case True
    with t p show ?thesis
      by (cases p; cases r) (simp_all add: main_session_def Let_def)
  next
    case False
    with t show ?thesis
      by (cases r) (auto simp: main_session_def Let_def)
  qed
qed

text \<open>
  Claim C1, as amended. The exit code is 0 or 1. It is 0 exactly when
  \<open>testsuite/extensions\<close> could be listed and either \<open>--list\<close> was asked for, or
  the arguments passed the checks of \<open>main\<close> (each requested extension is in the
  listing; the submission is a file with \<open>--archive\<close>, a directory without), nothing
  was raised in the \<open>try\<close> block (the preparation of the submission and
  \<open>run_tests\<close>), and the final \<open>rm\<close>, when there is one, could be launched. What
  \<open>run_tests\<close> reports when it returns, failed tests included, plays no part.
\<close>

theorem main_exit_code:
  "(fst (main e ns w) = 0 \<or> fst (main e ns w) = 1)
   \<and> (fst (main e ns w) = 0 \<longleftrightarrow>
        (\<exists>avail_exts.
           listdir w (lit ''testsuite/extensions'') = Inr avail_exts
           \<and> (ns_list ns
              \<or> ((\<forall>ext\<in>set (ns_x ns). ext \<in> set avail_exts)
                 \<and> (if ns_archive ns then isfile w (ns_submission ns)
                    else isdir w (ns_submission ns))
                 \<and> (\<exists>res. fst (snd (main_try e ns w)) = Inr res)
                 \<and> (ns_noclean ns \<or> \<not> ns_archive ns
                    \<or> (\<exists>returncode out err.
                          fst (subprocess_run e
                                 [lit ''rm'', lit ''-rf'', fst (main_try e ns w)] Inherit
                                 (print (RemovingTemporaryFiles (fst (main_try e ns w)))
                                    (snd (snd (main_try e ns w)))))
                            = Completed returncode out err))))))"
proof (cases "listdir w (lit ''testsuite/extensions'')")
  case (Inl x)
  then show ?thesis by (simp add: main_def)
next
  case (Inr avail_exts)
  show ?thesis
  proof (cases "ns_list ns")
    case True
    with Inr show ?thesis by (simp add: main_def)
  next
    case False
    show ?thesis
    proof (cases "(\<forall>ext\<in>set (ns_x ns). ext \<in> set avail_exts)
                 \<and> (if ns_archive ns then isfile w (ns_submission ns)
                    else isdir w (ns_submission ns))")
      case True
      with Inr False have "main e ns w = main_session e ns w"
        by (auto simp: main_def list_ex_iff)
      with Inr False True show ?thesis
        by (simp add: main_session_exit)
    next
      case False
      with Inr \<open>\<not> ns_list ns\<close> have "fst (main e ns w) = 1"
        by (auto simp: main_def list_ex_iff split: if_splits)
      with Inr \<open>\<not> ns_list ns\<close> False show ?thesis by auto
    qed
  qed
qed

lemma tiny_x86_session:
  "fst (snd (main_try tiny_env (tiny_ns False True) tiny_world))
     = Inr \<lparr>res_ok = 1, res_bad = 0, res_total = 1, res_failures = [], res_success = True\<rparr>"
  by (simp add: prog_defs tiny_defs path_defs fs_defs str_defs)

theorem main_exit_code_witness:
  "listdir tiny_world (lit ''testsuite/extensions'') = Inr [lit ''arrays1'']
   \<and> isdir tiny_world (lit ''sub'')
   \<and> \<not> ns_archive (tiny_ns False True) \<and> \<not> ns_list (tiny_ns False True)
   \<and> ns_x (tiny_ns False True) = []
   \<and> fst (snd (main_try tiny_env (tiny_ns False True) tiny_world))
     = Inr \<lparr>res_ok = 1, res_bad = 0, res_total = 1, res_failures = [], res_success = True\<rparr>
   \<and> fst (main tiny_env (tiny_ns False True) tiny_world) = 0
   \<and> fst (snd (main_try tiny_env (tiny_ns False True)
                 (tiny_world\<lparr>fs := (fs tiny_world)(lit ''sub/doc'' := None)\<rparr>)))
     = Inl (TestingException (SubmissionLacks (lit ''doc'')))
   \<and> fst (main tiny_env (tiny_ns False True)
            (tiny_world\<lparr>fs := (fs tiny_world)(lit ''sub/doc'' := None)\<rparr>)) = 1"
proof -
  have l: "listdir tiny_world (lit ''testsuite/extensions'') = Inr [lit ''arrays1'']"
    by (simp add: tiny_defs path_defs fs_defs)
  have d: "isdir tiny_world (lit ''sub'')"
    by (simp add: tiny_defs path_defs fs_defs)
  have n: "\<not> ns_archive (tiny_ns False True)" "\<not> ns_list (tiny_ns False True)"
    "ns_x (tiny_ns False True) = []" "ns_submission (tiny_ns False True) = lit ''sub''"
    by (simp_all add: tiny_ns_def)
  have b: "fst (snd (main_try tiny_env (tiny_ns False True)
                 (tiny_world\<lparr>fs := (fs tiny_world)(lit ''sub/doc'' := None)\<rparr>)))
     = Inl (TestingException (SubmissionLacks (lit ''doc'')))"
    by (simp add: prog_defs tiny_defs path_defs fs_defs)
  from main_exit_code [of tiny_env "tiny_ns False True" tiny_world] l d n tiny_x86_session
  have z: "fst (main tiny_env (tiny_ns False True) tiny_world) = 0" by simp
  from main_exit_code [of tiny_env "tiny_ns False True"
         "tiny_world\<lparr>fs := (fs tiny_world)(lit ''sub/doc'' := None)\<rparr>"] b
  have o: "fst (main tiny_env (tiny_ns False True)
            (tiny_world\<lparr>fs := (fs tiny_world)(lit ''sub/doc'' := None)\<rparr>)) = 1"
    by (auto simp: n)
  from l d n tiny_x86_session z b o show ?thesis by simp
qed

text \<open>
  Claim C1 as stated fails: a type-checking session whose only test fails, on arguments
  that pass every check, exits with 0.
\<close>

theorem main_exit_counterexample:
  "fst (snd (main_try tiny_env (tiny_ns False False) tiny_world))
     = Inr \<lparr>res_ok = 0, res_bad = 1, res_total = 1,
            res_failures =
              [(lit ''testsuite/good/t'',
                \<lparr>stderr_actual = lit ''Parse ERROR at line 3'', stderr_expected = lit ''OK'',
                 stdout_expected = [], stdout_actual = [], stdout_compiler = []\<rparr>)],
            res_success = False\<rparr>
   \<and> fst (main tiny_env (tiny_ns False False) tiny_world) = 0"
  by (simp add: prog_defs tiny_defs path_defs fs_defs str_defs)

subsection \<open>The catalogue\<close>

lemma build_list_loop_entries:
  "\<exists>new. build_list_loop w path is_good tests names = tests @ new
     \<and> (\<forall>t\<in>set new. \<exists>fname\<in>set names. \<exists>base.
           isfile w (join path fname) \<and> splitext fname = (base, lit ''.jl'')
           \<and> t = (join path base, is_good))"
proof (induction names arbitrary: tests)
  case Nil
  then show ?case by simp
next
  case (Cons fname names)
  let ?tests' = "if isfile w (join path fname)
        then (case splitext fname of
                (base, ext) \<Rightarrow>
                  if ext = lit ''.jl'' then tests @ [(join path base, is_good)] else tests)
        else tests"
  obtain base ext where sp: "splitext fname = (base, ext)" by (cases "splitext fname")
  from Cons.IH [of ?tests'] obtain new where
    new: "build_list_loop w path is_good ?tests' names = ?tests' @ new"
    and ent: "\<forall>t\<in>set new. \<exists>fname\<in>set names. \<exists>base.
           isfile w (join path fname) \<and> splitext fname = (base, lit ''.jl'')
           \<and> t = (join path base, is_good)"
    by blast
  show ?case
  proof (cases "isfile w (join path fname) \<and> ext = lit ''.jl''")
    case True
    with sp have t: "?tests' = tests @ [(join path base, is_good)]" by simp
    from new t have "build_list_loop w path is_good tests (fname # names)
                      = tests @ ((join path base, is_good) # new)" by simp
    moreover from True sp ent
    have "\<forall>t\<in>set ((join path base, is_good) # new). \<exists>f\<in>set (fname # names). \<exists>base.
           isfile w (join path f) \<and> splitext f = (base, lit ''.jl'')
           \<and> t = (join path base, is_good)"
      by auto
    ultimately show ?thesis by blast
  next
    case False
    with sp have t: "?tests' = tests" by auto
    from new t have "build_list_loop w path is_good tests (fname # names) = tests @ new"
      by simp
    moreover from ent
    have "\<forall>t\<in>set new. \<exists>f\<in>set (fname # names). \<exists>base.
           isfile w (join path f) \<and> splitext f = (base, lit ''.jl'')
           \<and> t = (join path base, is_good)"
      by auto
    ultimately show ?thesis by blast
  qed
qed

lemma build_list_not_dir:
  "\<not> isdir w path \<Longrightarrow> \<exists>n s. build_list tests path is_good w = Inl (OSError n s)"
  by (auto simp: build_list_def listdir_def isdir_def split: option.splits node.splits)

lemma build_list_print [simp]:
  "build_list tests path is_good (print x w) = build_list tests path is_good w"
proof -
  have "build_list_loop (print x w) path is_good ts names
          = build_list_loop w path is_good ts names" for ts names
    by (induction names arbitrary: ts) (simp_all add: isfile_def print_def)
  moreover have "fs (print x w) = fs w" by (simp add: print_def)
  ultimately show ?thesis
    by (simp add: build_list_def listdir_def split: option.splits node.splits)
qed

lemma run_tests_missing:
  assumes "fs w (lit ''testsuite/good'') = None \<or> fs w (lit ''testsuite/bad'') = None"
  shows "\<exists>n s. fst (run_tests e p backends pre exts w) = Inl (OSError n s)"
proof (cases "build_list [] (lit ''testsuite/good'') True w")
  case (Inl x)
  have "\<exists>n s. x = OSError n s"
    using Inl by (auto simp: build_list_def listdir_def split: option.splits node.splits)
  with Inl show ?thesis by (auto simp: run_tests_def Let_def)
next
  case (Inr t1)
  then have "fs w (lit ''testsuite/good'') \<noteq> None"
    by (auto simp: build_list_def listdir_def split: option.splits)
  with assms have "\<not> isdir w (lit ''testsuite/bad'')" by (simp add: isdir_def)
  from build_list_not_dir [OF this] obtain n s where
    "build_list t1 (lit ''testsuite/bad'') False w = Inl (OSError n s)" by blast
  with Inr show ?thesis by (auto simp: run_tests_def Let_def)
qed

lemma main_try_missing:
  assumes "fs (snd (snd (prepare e ns w))) (lit ''testsuite/good'') = None
           \<or> fs (snd (snd (prepare e ns w))) (lit ''testsuite/bad'') = None"
  shows "\<exists>x. fst (snd (main_try e ns w)) = Inl x"
proof -
  obtain tmpdir r w1 where p: "prepare e ns w = (tmpdir, r, w1)"
    by (cases "prepare e ns w")
  show ?thesis
  proof (cases r)
    case (Inl x)
    with p show ?thesis by (simp add: main_try_def)
  next
    case (Inr path)
    from assms p have "fs w1 (lit ''testsuite/good'') = None
                       \<or> fs w1 (lit ''testsuite/bad'') = None" by simp
    from run_tests_missing [OF this, of e path "pick_backends ns" "ns_s ns" "ns_x ns"]
    obtain n s where "fst (run_tests e path (pick_backends ns) (ns_s ns) (ns_x ns) w1)
                        = Inl (OSError n s)" by blast
    with p Inr show ?thesis
      by (cases "run_tests e path (pick_backends ns) (ns_s ns) (ns_x ns) w1")
         (simp add: main_try_def)
  qed
qed

lemma main_raised_exit:
  assumes "\<not> ns_list ns" and "fst (snd (main_try e ns w)) = Inl x"
  shows "fst (main e ns w) = 1"
  using assms
  by (cases "listdir w (lit ''testsuite/extensions'')")
     (auto simp: main_def main_session_exit)

text \<open>
  Claim C8, as amended. When the directory to scan is missing, \<open>build_list\<close> raises
  the \<open>OSError\<close> of \<open>os.listdir\<close> (no such file or directory). When it is a
  directory, \<open>build_list\<close> appends to the list it is given one entry for each name of
  the listing that is a file and whose extension, as \<open>splitext\<close> gives it, is \<open>.jl\<close>,
  and nothing else. When \<open>testsuite/good\<close> or \<open>testsuite/bad\<close> is missing,
  \<open>run_tests\<close> ends with an \<open>OSError\<close>; and a session (not one of \<open>--list\<close>)
  in which one of the two is missing once the submission is prepared exits with 1.
\<close>

theorem build_list_entries:
  "(fs w path = None \<longrightarrow>
      build_list tests path is_good w = Inl (OSError 2 (lit ''No such file or directory'')))
   \<and> (\<forall>names. fs w path = Some (Dir names) \<longrightarrow>
        (\<exists>new. build_list tests path is_good w = Inr (tests @ new)
           \<and> (\<forall>t\<in>set new. \<exists>fname\<in>set names. \<exists>base.
                 isfile w (join path fname) \<and> splitext fname = (base, lit ''.jl'')
                 \<and> t = (join path base, is_good))))
   \<and> (fs w (lit ''testsuite/good'') = None \<or> fs w (lit ''testsuite/bad'') = None \<longrightarrow>
        (\<exists>n s. fst (run_tests e p backends pre exts w) = Inl (OSError n s)))
   \<and> (\<not> ns_list ns
       \<and> (fs (snd (snd (prepare e ns w))) (lit ''testsuite/good'') = None
          \<or> fs (snd (snd (prepare e ns w))) (lit ''testsuite/bad'') = None) \<longrightarrow>
        fst (main e ns w) = 1)"
proof (intro conjI impI allI)
  assume "fs w path = None"
  then show "build_list tests path is_good w
               = Inl (OSError 2 (lit ''No such file or directory''))"
    by (simp add: build_list_def listdir_def)
next
  fix names
  assume "fs w path = Some (Dir names)"
  with build_list_loop_entries [of w path is_good tests names]
  show "\<exists>new. build_list tests path is_good w = Inr (tests @ new)
           \<and> (\<forall>t\<in>set new. \<exists>fname\<in>set names. \<exists>base.
                 isfile w (join path fname) \<and> splitext fname = (base, lit ''.jl'')
                 \<and> t = (join path base, is_good))"
    by (simp add: build_list_def listdir_def)
next
  assume "fs w (lit ''testsuite/good'') = None \<or> fs w (lit ''testsuite/bad'') = None"
  then show "\<exists>n s. fst (run_tests e p backends pre exts w) = Inl (OSError n s)"
    by (rule run_tests_missing)
next
  assume a: "\<not> ns_list ns
       \<and> (fs (snd (snd (prepare e ns w))) (lit ''testsuite/good'') = None
          \<or> fs (snd (snd (prepare e ns w))) (lit ''testsuite/bad'') = None)"
  then obtain x where "fst (snd (main_try e ns w)) = Inl x"
    using main_try_missing by blast
  with a show "fst (main e ns w) = 1" using main_raised_exit by blast
qed

theorem build_list_entries_witness:
  "fs tiny_world (lit ''testsuite/good'') = Some (Dir [lit ''t.jl'', lit ''notes.txt''])
   \<and> build_list [] (lit ''testsuite/good'') True tiny_world
       = Inr [(lit ''testsuite/good/t'', True)]
   \<and> (\<exists>new. build_list [] (lit ''testsuite/good'') True tiny_world = Inr ([] @ new)
         \<and> (\<forall>t\<in>set new. \<exists>fname\<in>set [lit ''t.jl'', lit ''notes.txt'']. \<exists>base.
               isfile tiny_world (join (lit ''testsuite/good'') fname)
               \<and> splitext fname = (base, lit ''.jl'')
               \<and> t = (join (lit ''testsuite/good'') base, True)))
   \<and> fs (tiny_world\<lparr>fs := (fs tiny_world)(lit ''testsuite/good'' := None)\<rparr>)
        (lit ''testsuite/good'') = None
   \<and> build_list [] (lit ''testsuite/good'') True
        (tiny_world\<lparr>fs := (fs tiny_world)(lit ''testsuite/good'' := None)\<rparr>)
       = Inl (OSError 2 (lit ''No such file or directory''))
   \<and> (\<exists>n s. fst (run_tests tiny_env (lit ''sub'') [] (lit ''jlc'') []
                    (tiny_world\<lparr>fs := (fs tiny_world)(lit ''testsuite/good'' := None)\<rparr>))
               = Inl (OSError n s))
   \<and> \<not> ns_list (tiny_ns False False)
   \<and> fs (snd (snd (prepare tiny_env (tiny_ns False False)
                     (tiny_world\<lparr>fs := (fs tiny_world)(lit ''testsuite/good'' := None)\<rparr>))))
        (lit ''testsuite/good'') = None
   \<and> fst (main tiny_env (tiny_ns False False)
            (tiny_world\<lparr>fs := (fs tiny_world)(lit ''testsuite/good'' := None)\<rparr>)) = 1"
proof -
  let ?W = "tiny_world\<lparr>fs := (fs tiny_world)(lit ''testsuite/good'' := None)\<rparr>"
  have d: "fs tiny_world (lit ''testsuite/good'')
             = Some (Dir [lit ''t.jl'', lit ''notes.txt''])"
    by (simp add: tiny_defs path_defs)
  have b: "build_list [] (lit ''testsuite/good'') True tiny_world
             = Inr [(lit ''testsuite/good/t'', True)]"
    by (simp add: build_list_def tiny_defs path_defs fs_defs)
  have m: "fs ?W (lit ''testsuite/good'') = None" by simp
  have l: "\<not> ns_list (tiny_ns False False)" by (simp add: tiny_ns_def)
  have q: "fs (snd (snd (prepare tiny_env (tiny_ns False False) ?W)))
             (lit ''testsuite/good'') = None"
    by (simp add: prog_defs tiny_defs path_defs fs_defs)
  note t1 = build_list_entries [of tiny_world "lit ''testsuite/good''" "[]" True]
  note t2 = build_list_entries [of ?W "lit ''testsuite/good''" "[]" True tiny_env
              "lit ''sub''" "[]" "lit ''jlc''" "[]" "tiny_ns False False"]
  from t1 d have e: "\<exists>new. build_list [] (lit ''testsuite/good'') True tiny_world
                            = Inr ([] @ new)
         \<and> (\<forall>t\<in>set new. \<exists>fname\<in>set [lit ''t.jl'', lit ''notes.txt'']. \<exists>base.
               isfile tiny_world (join (lit ''testsuite/good'') fname)
               \<and> splitext fname = (base, lit ''.jl'')
               \<and> t = (join (lit ''testsuite/good'') base, True))"
    by blast
  from t2 m have r1: "build_list [] (lit ''testsuite/good'') True ?W
       = Inl (OSError 2 (lit ''No such file or directory''))" by blast
  from t2 m have r2: "\<exists>n s. fst (run_tests tiny_env (lit ''sub'') [] (lit ''jlc'') [] ?W)
               = Inl (OSError n s)" by blast
  from t2 l q have r3: "fst (main tiny_env (tiny_ns False False) ?W) = 1" by blast
  from d b e m r1 r2 l q r3 show ?thesis by (intro conjI)
qed

text \<open>
  Claim C8 as stated fails: with no directory \<open>testsuite/good\<close>, \<open>build_list\<close>
  raises instead of giving no entry, \<open>run_tests\<close> ends with that exception, and the
  session exits with 1.
\<close>

theorem build_list_missing_counterexample:
  "build_list [] (lit ''testsuite/good'') True bare_world
     = Inl (OSError 2 (lit ''No such file or directory''))
   \<and> fst (run_tests tiny_env (lit ''sub'') [] (lit ''jlc'') [] bare_world)
     = Inl (OSError 2 (lit ''No such file or directory''))
   \<and> fst (snd (main_try tiny_env (tiny_ns False False)
                 (tiny_world\<lparr>fs := (fs tiny_world)(lit ''testsuite/good'' := None)\<rparr>)))
     = Inl (OSError 2 (lit ''No such file or directory''))
   \<and> fst (main tiny_env (tiny_ns False False)
            (tiny_world\<lparr>fs := (fs tiny_world)(lit ''testsuite/good'' := None)\<rparr>)) = 1"
  by (simp add: prog_defs tiny_defs bare_world_def path_defs fs_defs str_defs)

subsection \<open>The verdict of the run step\<close>

text \<open>
  Claim C7, as amended. For a test expected to succeed, run with a linker, whose compile
  step passed and whose link step raised nothing: when the program built could be
  launched and its standard output decodes (UTF-8), the verdict is the equality of two
  strings, the decoded standard output and the expected output. The expected output is
  the empty string when there is no output file; otherwise it is the text of the output
  file as text mode reads it: decoded, then with each \<open>\r\n\<close> and each lone \<open>\r\<close>
  replaced by \<open>\n\<close>. The standard output of the program is not translated so.
\<close>

theorem exec_test_run_verdict:
  assumes comp: "fst (run_compiler e exe (filename @ lit ''.jl'') True w) = Inr (True, d)"
    and w1: "w1 = snd (run_compiler e exe (filename @ lit ''.jl'') True w)"
    and link: "fst (call_linker e l (stdout_compiler d) w1) = Inr ()"
    and w2: "w2 = snd (call_linker e l (stdout_compiler d) w1)"
    and fixture: "(\<not> isfile w2 (filename @ lit ''.output'') \<and> stdout_exp = [])
       \<or> (\<exists>b t. fs w2 (filename @ lit ''.output'') = Some (File b)
              \<and> utf8_decode b = Some t \<and> stdout_exp = universal_newlines t)"
    and run: "fst (subprocess_run e [lit ''./a.out'']
                (Piped (case open_input w2 (filename @ lit ''.input'') of
                          Some b \<Rightarrow> b | None \<Rightarrow> [])) w2) = Completed returncode out err"
    and dec: "utf8_decode out = Some stdout_act"
  shows "fst (exec_test e exe filename True (Some l) w)
     = Inr (stdout_act = stdout_exp,
            \<lparr>stderr_actual = stderr_actual d, stderr_expected = stderr_expected d,
             stdout_expected = stdout_exp, stdout_actual = stdout_act,
             stdout_compiler = stdout_compiler d\<rparr>)"
proof -
  from comp w1 have c: "run_compiler e exe (filename @ lit ''.jl'') True w
                          = (Inr (True, d), w1)"
    by (cases "run_compiler e exe (filename @ lit ''.jl'') True w") simp
  from link w2 have k: "call_linker e l (stdout_compiler d) w1 = (Inr (), w2)"
    by (cases "call_linker e l (stdout_compiler d) w1") simp
  from fixture have x: "read_expected w2 (filename @ lit ''.output'') = Inr stdout_exp"
    by (auto simp: read_expected_def isfile_def open_file_def)
  obtain w3 where r: "subprocess_run e [lit ''./a.out'']
                (Piped (case open_input w2 (filename @ lit ''.input'') of
                          Some b \<Rightarrow> b | None \<Rightarrow> [])) w2
            = (Completed returncode out err, w3)"
    using run
    by (cases "subprocess_run e [lit ''./a.out'']
                (Piped (case open_input w2 (filename @ lit ''.input'') of
                          Some b \<Rightarrow> b | None \<Rightarrow> [])) w2") simp
  from c k x r dec show ?thesis by (simp add: exec_test_def Let_def)
qed

lemmas crlf_defs = crlf_env_def crlf_world_def crlf_bytes_def tiny_env_def

lemma crlf_compile:
  "fst (run_compiler crlf_env (lit ''jlc'') (lit ''t'' @ lit ''.jl'') True crlf_world)
     = Inr (True, \<lparr>stderr_actual = lit ''OK'', stderr_expected = lit ''OK'',
                  stdout_expected = [], stdout_actual = [],
                  stdout_compiler = [50, 53, 13, 10]\<rparr>)"
  by (simp add: prog_defs crlf_defs path_defs fs_defs str_defs)

lemma crlf_link:
  "fst (call_linker crlf_env (LinkLLVM (lit ''sub'')) [50, 53, 13, 10]
          (snd (run_compiler crlf_env (lit ''jlc'') (lit ''t'' @ lit ''.jl'') True crlf_world)))
     = Inr ()"
  by (simp add: prog_defs crlf_defs path_defs fs_defs str_defs)

lemma crlf_fixture:
  "fs (snd (call_linker crlf_env (LinkLLVM (lit ''sub'')) [50, 53, 13, 10]
          (snd (run_compiler crlf_env (lit ''jlc'') (lit ''t'' @ lit ''.jl'') True crlf_world))))
      (lit ''t'' @ lit ''.output'') = Some (File crlf_bytes)"
  by (simp add: prog_defs crlf_defs path_defs fs_defs str_defs)

lemma crlf_decode: "utf8_decode crlf_bytes = Some [50, 53, 13, 10]"
  by (simp add: crlf_bytes_def str_defs)

lemma crlf_newlines: "universal_newlines [50, 53, 13, 10] = lit ''25\<newline>''"
  by (simp add: lit_def)

lemma crlf_run:
  "fst (subprocess_run crlf_env [lit ''./a.out''] stdi w) = Completed 0 crlf_bytes ''OK''"
  by (simp add: crlf_env_def subprocess_run_def)

theorem exec_test_run_verdict_witness:
  "fst (run_compiler crlf_env (lit ''jlc'') (lit ''t'' @ lit ''.jl'') True crlf_world)
     = Inr (True, \<lparr>stderr_actual = lit ''OK'', stderr_expected = lit ''OK'',
                  stdout_expected = [], stdout_actual = [],
                  stdout_compiler = [50, 53, 13, 10]\<rparr>)
   \<and> fst (call_linker crlf_env (LinkLLVM (lit ''sub'')) [50, 53, 13, 10]
          (snd (run_compiler crlf_env (lit ''jlc'') (lit ''t'' @ lit ''.jl'') True crlf_world)))
     = Inr ()
   \<and> fs (snd (call_linker crlf_env (LinkLLVM (lit ''sub'')) [50, 53, 13, 10]
          (snd (run_compiler crlf_env (lit ''jlc'') (lit ''t'' @ lit ''.jl'') True crlf_world))))
      (lit ''t'' @ lit ''.output'') = Some (File crlf_bytes)
   \<and> utf8_decode crlf_bytes = Some [50, 53, 13, 10]
   \<and> universal_newlines [50, 53, 13, 10] = lit ''25\<newline>''
   \<and> fst (exec_test crlf_env (lit ''jlc'') (lit ''t'') True (Some (LinkLLVM (lit ''sub'')))
            crlf_world)
     = Inr (False,
            \<lparr>stderr_actual = lit ''OK'', stderr_expected = lit ''OK'',
             stdout_expected = lit ''25\<newline>'', stdout_actual = [50, 53, 13, 10],
             stdout_compiler = [50, 53, 13, 10]\<rparr>)"
proof -
  let ?d = "\<lparr>stderr_actual = lit ''OK'', stderr_expected = lit ''OK'',
             stdout_expected = [], stdout_actual = [],
             stdout_compiler = [50, 53, 13, 10]\<rparr>"
  let ?w1 = "snd (run_compiler crlf_env (lit ''jlc'') (lit ''t'' @ lit ''.jl'') True crlf_world)"
  let ?w2 = "snd (call_linker crlf_env (LinkLLVM (lit ''sub'')) (stdout_compiler ?d) ?w1)"
  have link: "fst (call_linker crlf_env (LinkLLVM (lit ''sub'')) (stdout_compiler ?d) ?w1)
                = Inr ()"
    using crlf_link by simp
  have fixture: "(\<not> isfile ?w2 (lit ''t'' @ lit ''.output'') \<and> lit ''25\<newline>'' = [])
       \<or> (\<exists>b t. fs ?w2 (lit ''t'' @ lit ''.output'') = Some (File b)
              \<and> utf8_decode b = Some t \<and> lit ''25\<newline>'' = universal_newlines t)"
    using crlf_fixture crlf_decode crlf_newlines by simp
  have ne: "([50, 53, 13, 10] = lit ''25\<newline>'') = False" by (simp add: lit_def)
  from exec_test_run_verdict [OF crlf_compile refl link refl fixture crlf_run crlf_decode]
    crlf_compile crlf_link crlf_fixture crlf_decode crlf_newlines ne
  show ?thesis by simp
qed

text \<open>
  Claim C7 as stated fails: the output file holds the four bytes \<open>25\r\n\<close>, the
  program prints these same four bytes, and the test fails, since the expected text is
  read as \<open>25\n\<close>.
\<close>

theorem exec_test_bytes_counterexample:
  "fs crlf_world (lit ''t.output'') = Some (File crlf_bytes)
   \<and> fst (spawn crlf_env [lit ''./a.out''] (Piped []) (fs crlf_world))
       = Completed 0 crlf_bytes ''OK''
   \<and> fst (exec_test crlf_env (lit ''jlc'') (lit ''t'') True (Some (LinkLLVM (lit ''sub'')))
            crlf_world)
     = Inr (False,
            \<lparr>stderr_actual = lit ''OK'', stderr_expected = lit ''OK'',
             stdout_expected = lit ''25\<newline>'', stdout_actual = [50, 53, 13, 10],
             stdout_compiler = [50, 53, 13, 10]\<rparr>)"
  by (simp add: prog_defs crlf_defs path_defs fs_defs str_defs)

subsection \<open>The report\<close>

text \<open>
  Claim C2 fails on the code. With the backends \<open>llvm\<close> and \<open>x86\<close>, in this
  order, the only test fails in the first pass (alone, that pass gives one failure and no
  success) and passes in the second; \<open>success\<close> is computed from the counter of the
  last pass alone and is true.
\<close>

theorem success_flag_last_pass_only:
  "fst (run_tests tiny_env (lit ''sub'') [lit ''llvm''] (lit ''jlc'') [] tiny_world)
     = Inr \<lparr>res_ok = 0, res_bad = 1, res_total = 1,
            res_failures =
              [(lit ''testsuite/good/t'',
                \<lparr>stderr_actual = lit ''Parse ERROR at line 3'', stderr_expected = lit ''OK'',
                 stdout_expected = [], stdout_actual = [], stdout_compiler = []\<rparr>)],
            res_success = False\<rparr>
   \<and> fst (run_tests tiny_env (lit ''sub'') [lit ''llvm'', lit ''x86''] (lit ''jlc'') []
            tiny_world)
     = Inr \<lparr>res_ok = 1, res_bad = 0, res_total = 1,
            res_failures =
              [(lit ''testsuite/good/t'',
                \<lparr>stderr_actual = lit ''Parse ERROR at line 3'', stderr_expected = lit ''OK'',
                 stdout_expected = [], stdout_actual = [], stdout_compiler = []\<rparr>)],
            res_success = True\<rparr>"
  by (simp add: prog_defs tiny_defs path_defs fs_defs str_defs)

text \<open>
  Claim C10 fails on the code, in the same session: the list of failures holds the
  record of the first pass when \<open>run_tests\<close> ends, yet nothing of it is printed, since
  the failures are printed only when \<open>success\<close> is false.
\<close>

theorem failures_not_rendered:
  "res_failures (projr (fst (run_tests tiny_env (lit ''sub'') [lit ''llvm'', lit ''x86'']
                               (lit ''jlc'') [] tiny_world)))
     = [(lit ''testsuite/good/t'',
         \<lparr>stderr_actual = lit ''Parse ERROR at line 3'', stderr_expected = lit ''OK'',
          stdout_expected = [], stdout_actual = [], stdout_compiler = []\<rparr>)]
   \<and> printed (snd (run_tests tiny_env (lit ''sub'') [lit ''llvm'', lit ''x86'']
                      (lit ''jlc'') [] tiny_world))
     = [Banner (lit ''jlc'') [lit ''llvm'', lit ''x86''] [],
        Status (lit ''llvm'') 0 1 1, Blank,
        Status (lit ''x86'') 1 0 1, Blank,
        Blank, AllSucceeded]"
  by (simp add: prog_defs tiny_defs path_defs fs_defs str_defs)

end
